theory Spec2Isabelle
  imports Complex_Main "HOL-Library.Log_Nat"
begin

section \<open>JavaScript numbers\<close>

text \<open>
  Every value the TypeScript sources type as \<open>number\<close> is a \<open>number\<close> here: a real,
  the negative zero, one of the two infinities, or NaN. The reals that JavaScript
  computes with are the IEEE 754 doubles, and each arithmetic operation returns the
  double nearest to the exact result. \<open>Fin 0\<close> is the zero \<open>+0\<close> and \<open>NegZero\<close> the
  zero \<open>-0\<close>. A nullable column or an optional property is an \<open>option\<close>, with
  \<open>None\<close> for \<open>null\<close> and \<open>undefined\<close>.
\<close>

datatype number = is_Fin: Fin (the_Fin: real) | NegZero | PInf | NInf | NaN

text \<open>
  Rounding to double precision, to nearest with ties to the even mantissa. A positive
  real \<open>a\<close> with \<open>2 ^ e \<le> a < 2 ^ (e + 1)\<close> is rounded to a multiple of
  \<open>2 ^ (e - 52)\<close>, and below the normal range to a multiple of \<open>2 ^ (- 1074)\<close>; a
  result of \<open>2 ^ 1024\<close> or more is an infinity. A negative real is rounded as its
  absolute value is, and keeps its sign where the result is zero.
\<close>

definition round_half_even :: "real \<Rightarrow> int" where
  "round_half_even t =
     (let f = \<lfloor>t\<rfloor>; r = t - of_int f
      in if r < 1 / 2 then f else if 1 / 2 < r then f + 1
         else if even f then f else f + 1)"

definition floor_log2 :: "real \<Rightarrow> int" where
  "floor_log2 a = (if 1 \<le> a then bitlen \<lfloor>a\<rfloor> - 1 else - bitlen (\<lceil>1 / a\<rceil> - 1))"

definition ulp_exp :: "real \<Rightarrow> int" where
  "ulp_exp a = max (floor_log2 a) (- 1022) - 52"

definition mantissa :: "real \<Rightarrow> int" where
  "mantissa a = round_half_even (a / 2 powi ulp_exp a)"

definition round_double :: "real \<Rightarrow> number" where
  "round_double x =
     (if x = 0 then Fin 0
      else
        let y = of_int (mantissa \<bar>x\<bar>) * 2 powi ulp_exp \<bar>x\<bar>
        in if 2 ^ 1024 \<le> y then (if 0 < x then PInf else NInf)
           else if y = 0 then (if 0 < x then Fin 0 else NegZero)
           else Fin (if 0 < x then y else - y))"

text \<open>
  The number that a decimal literal of the sources, or a decimal number in a JSON
  answer of the backend, stands for; and the reals that are doubles.
\<close>

definition lit :: "real \<Rightarrow> number" where
  "lit x = round_double x"

definition is_double :: "real \<Rightarrow> bool" where
  "is_double x = (round_double x = Fin x)"

text \<open>
  A positive double written with its mantissa \<open>n\<close> and the exponent \<open>k\<close> of its last
  place.
\<close>

definition normal_form :: "real \<Rightarrow> int \<Rightarrow> int \<Rightarrow> bool" where
  "normal_form y n k =
     (y = real_of_int n * 2 powi k \<and> - 1074 \<le> k \<and> 0 < n \<and> n \<le> 2 ^ 53
      \<and> (- 1074 < k \<longrightarrow> 2 ^ 52 \<le> n))"

text \<open>
  The operators \<open>+\<close>, \<open>-\<close>, \<open>*\<close> and \<open>/\<close>, with the IEEE rules for the zeros
  and the infinities. A sum with a zero operand is the other operand, as it is for
  doubles (the sum of \<open>+0\<close> and \<open>-0\<close> being \<open>+0\<close>); an exact sum of 0 is
  \<open>+0\<close>; a zero product or quotient has the product of the signs of its operands.
\<close>

fun num_neg :: "number \<Rightarrow> number" where
  "num_neg (Fin x) = (if x = 0 then NegZero else Fin (- x))"
| "num_neg NegZero = Fin 0"
| "num_neg PInf = NInf"
| "num_neg NInf = PInf"
| "num_neg NaN = NaN"

fun num_add :: "number \<Rightarrow> number \<Rightarrow> number" where
  "num_add (Fin x) (Fin y) =
     (if x = 0 then Fin y else if y = 0 then Fin x else round_double (x + y))"
| "num_add NegZero b = b"
| "num_add a NegZero = a"
| "num_add NaN _ = NaN"
| "num_add _ NaN = NaN"
| "num_add PInf NInf = NaN"
| "num_add NInf PInf = NaN"
| "num_add PInf _ = PInf"
| "num_add _ PInf = PInf"
| "num_add NInf _ = NInf"
| "num_add _ NInf = NInf"

definition num_sub :: "number \<Rightarrow> number \<Rightarrow> number" where
  "num_sub a b = num_add a (num_neg b)"

fun num_mul :: "number \<Rightarrow> number \<Rightarrow> number" where
  "num_mul (Fin x) (Fin y) =
     (if x = 0 \<or> y = 0 then (if x < 0 \<or> y < 0 then NegZero else Fin 0)
      else round_double (x * y))"
| "num_mul NaN _ = NaN"
| "num_mul _ NaN = NaN"
| "num_mul NegZero (Fin y) = (if y < 0 then Fin 0 else NegZero)"
| "num_mul (Fin x) NegZero = (if x < 0 then Fin 0 else NegZero)"
| "num_mul NegZero NegZero = Fin 0"
| "num_mul NegZero _ = NaN"
| "num_mul _ NegZero = NaN"
| "num_mul PInf (Fin y) = (if y = 0 then NaN else if 0 < y then PInf else NInf)"
| "num_mul NInf (Fin y) = (if y = 0 then NaN else if 0 < y then NInf else PInf)"
| "num_mul (Fin x) PInf = (if x = 0 then NaN else if 0 < x then PInf else NInf)"
| "num_mul (Fin x) NInf = (if x = 0 then NaN else if 0 < x then NInf else PInf)"
| "num_mul PInf PInf = PInf"
| "num_mul NInf NInf = PInf"
| "num_mul PInf NInf = NInf"
| "num_mul NInf PInf = NInf"

fun num_div :: "number \<Rightarrow> number \<Rightarrow> number" where
  "num_div (Fin x) (Fin y) =
     (if y \<noteq> 0 then
        (if x = 0 then (if y < 0 then NegZero else Fin 0) else round_double (x / y))
      else if 0 < x then PInf else if x < 0 then NInf else NaN)"
| "num_div NaN _ = NaN"
| "num_div _ NaN = NaN"
| "num_div (Fin x) NegZero = (if 0 < x then NInf else if x < 0 then PInf else NaN)"
| "num_div NegZero (Fin y) = (if 0 < y then NegZero else if y < 0 then Fin 0 else NaN)"
| "num_div NegZero NegZero = NaN"
| "num_div NegZero PInf = NegZero"
| "num_div NegZero NInf = Fin 0"
| "num_div (Fin x) PInf = (if x < 0 then NegZero else Fin 0)"
| "num_div (Fin x) NInf = (if x < 0 then Fin 0 else NegZero)"
| "num_div PInf (Fin y) = (if 0 \<le> y then PInf else NInf)"
| "num_div NInf (Fin y) = (if 0 \<le> y then NInf else PInf)"
| "num_div PInf NegZero = NInf"
| "num_div NInf NegZero = PInf"
| "num_div _ _ = NaN"

text \<open>
  The comparisons \<open><=\<close> and \<open><\<close>; both are false as soon as one side is NaN, and
  the two zeros compare as equal.
\<close>

fun num_le :: "number \<Rightarrow> number \<Rightarrow> bool" where
  "num_le (Fin x) (Fin y) = (x \<le> y)"
| "num_le (Fin x) NegZero = (x \<le> 0)"
| "num_le NegZero (Fin y) = (0 \<le> y)"
| "num_le NegZero NegZero = True"
| "num_le NaN _ = False"
| "num_le _ NaN = False"
| "num_le NInf _ = True"
| "num_le _ PInf = True"
| "num_le _ _ = False"

fun num_lt :: "number \<Rightarrow> number \<Rightarrow> bool" where
  "num_lt (Fin x) (Fin y) = (x < y)"
| "num_lt (Fin x) NegZero = (x < 0)"
| "num_lt NegZero (Fin y) = (0 < y)"
| "num_lt NegZero NegZero = False"
| "num_lt NaN _ = False"
| "num_lt _ NaN = False"
| "num_lt PInf _ = False"
| "num_lt _ NInf = False"
| "num_lt _ _ = True"

text \<open>
  \<open>Math.min\<close>, \<open>Math.max\<close> (for which \<open>-0\<close> is below \<open>+0\<close>), \<open>Math.abs\<close>,
  \<open>Math.round\<close> (to the nearest integer, a half upwards) and \<open>Math.floor\<close>.
\<close>

definition num_min :: "number \<Rightarrow> number \<Rightarrow> number" where
  "num_min a b =
     (if a = NaN \<or> b = NaN then NaN
      else if num_lt a b then a else if num_lt b a then b
      else if b = NegZero then b else a)"

definition num_max :: "number \<Rightarrow> number \<Rightarrow> number" where
  "num_max a b =
     (if a = NaN \<or> b = NaN then NaN
      else if num_lt a b then b else if num_lt b a then a
      else if a = NegZero then b else a)"

fun num_abs :: "number \<Rightarrow> number" where
  "num_abs (Fin x) = Fin \<bar>x\<bar>"
| "num_abs NegZero = Fin 0"
| "num_abs PInf = PInf"
| "num_abs NInf = PInf"
| "num_abs NaN = NaN"

fun math_round :: "number \<Rightarrow> number" where
  "math_round (Fin x) =
     (if x < 0 \<and> \<lfloor>x + 1 / 2\<rfloor> = 0 then NegZero else Fin (of_int \<lfloor>x + 1 / 2\<rfloor>))"
| "math_round n = n"

fun math_floor :: "number \<Rightarrow> number" where
  "math_floor (Fin x) = Fin (of_int \<lfloor>x\<rfloor>)"
| "math_floor n = n"

text \<open>
  Truthiness of a number: the zeros and NaN are falsy. \<open>v || 0\<close> on a nullable
  number.
\<close>

fun truthy :: "number \<Rightarrow> bool" where
  "truthy (Fin x) = (x \<noteq> 0)"
| "truthy NegZero = False"
| "truthy NaN = False"
| "truthy _ = True"

fun or_zero :: "number option \<Rightarrow> number" where
  "or_zero None = Fin 0"
| "or_zero (Some n) = (if truthy n then n else Fin 0)"

text \<open>Truthiness of a nullable string: \<open>null\<close> and the empty string are falsy.\<close>

fun str_or :: "string option \<Rightarrow> string \<Rightarrow> string" where
  "str_or None d = d"
| "str_or (Some s) d = (if s = [] then d else s)"


section \<open>Pricing calculator\<close>

text \<open>
  A row of table \<open>ticket\<close>, with the columns that \<open>OptimizeMatching\<close> reads. Column
  \<open>id\<close> is \<open>ticket_id\<close>, \<open>type\<close> is \<open>ticket_type\<close>, \<open>status\<close> is \<open>ticket_status\<close>.
\<close>

record ticket =
  ticket_id :: int
  ticket_type :: string
  ticket_status :: string
  commodity_type :: string
  pricing_type :: "string option"
  signed_price :: "number option"
  lme_price :: "number option"
  payable_percent :: "number option"
  premium_discount :: "number option"
  quantity :: "number option"
  incoterms :: "string option"
  metal_form :: "string option"
  isri_grade :: "string option"
  ship_to :: "string option"
  ship_from :: "string option"

text \<open>\<open>calculateTicketPrice\<close> of \<open>OptimizeMatching\<close>.\<close>

definition calculateTicketPrice :: "'a ticket_scheme \<Rightarrow> number" where
  "calculateTicketPrice t =
     (if pricing_type t = Some ''Fixed'' then or_zero (signed_price t)
      else if pricing_type t = Some ''Formula'' then
        (case (lme_price t, payable_percent t) of
           (Some l, Some p) \<Rightarrow> if truthy l \<and> truthy p then num_mul l p else Fin 0
         | _ \<Rightarrow> Fin 0)
      else if pricing_type t = Some ''Index'' then
        (case (lme_price t, premium_discount t) of
           (Some l, Some d) \<Rightarrow> if truthy l \<and> truthy d then num_add l d else Fin 0
         | _ \<Rightarrow> Fin 0)
      else Fin 0)"

text \<open>
  The branch \<open>basis_with_payable\<close> of the template engine's variable lookup, for a
  payable percent that is neither \<open>null\<close> nor \<open>undefined\<close>: \<open>percentValue\<close>, and
  the integer \<open>Math.round(percentValue)\<close> that is printed before the percent sign. A
  stored value above 1.5 is read as a percentage already, any other as a fraction.
\<close>

definition percentValue :: "number \<Rightarrow> number" where
  "percentValue payablePercent =
     (if num_lt (Fin 1.5) payablePercent then payablePercent
      else num_mul payablePercent (Fin 100))"

definition shown_percent :: "number \<Rightarrow> number" where
  "shown_percent payablePercent = math_round (percentValue payablePercent)"

text \<open>A ticket with every nullable column \<open>null\<close>, to build examples from.\<close>

definition blank_ticket :: ticket where
  "blank_ticket = \<lparr> ticket_id = 0, ticket_type = ''Buy'', ticket_status = ''Approved'',
     commodity_type = ''Copper'', pricing_type = None, signed_price = None,
     lme_price = None, payable_percent = None, premium_discount = None,
     quantity = None, incoterms = None, metal_form = None, isri_grade = None,
     ship_to = None, ship_from = None \<rparr>"


section \<open>Ticket matching optimizer\<close>

text \<open>
  The payload that \<open>handleOptimize\<close> hands to \<open>createOrderMutation\<close>; table
  \<open>order\<close> keeps the payloads it accepted. \<open>order_id\<close> is the number that the source
  prints into the string \<open>id\<close>; \<open>buyer\<close> and \<open>seller\<close> are the lists of ticket ids
  that the source joins with commas.
\<close>

record order_data =
  order_id :: number
  buyer :: "int list"
  seller :: "int list"
  order_commodity_type :: string
  order_metal_form :: "string option"
  order_isri_grade :: "string option"
  allocated_quantity_mt :: number
  buy_price :: number
  sell_price :: number
  margin :: number
  order_status :: string
  transaction_type :: string
  order_ship_to :: "string option"
  order_ship_from :: "string option"
  product_details :: string
  created_at :: string

record backend =
  tickets :: "ticket list"
  orders :: "order_data list"

text \<open>
  What the component takes from its surroundings: the built-in \<open>parseFloat\<close>, the value
  of \<open>Math.random()\<close> (in \<open>[0, 1)\<close>), the clock, and whether the backend answers a
  request with an error.
\<close>

record env =
  parseFloat :: "string \<Rightarrow> number"
  random :: real
  now :: string
  buy_fetch_error :: bool
  sell_fetch_error :: bool
  insert_error :: bool

text \<open>The error toasts of \<open>handleOptimize\<close> and of \<open>createOrderMutation\<close>.\<close>

datatype toast_error =
    FillInFields
  | FetchFailed
  | NoMatchingTickets
  | NotEnoughSell number
  | NotEnoughBuy number
  | BuyExceedsSell
  | CreateFailed

text \<open>The requests sent to the backend, in the order they are issued.\<close>

datatype request =
    SelectTickets string string string
  | InsertOrder order_data

text \<open>
  \<open>Array.prototype.sort\<close> with a comparator. The sort is stable; for a comparator
  that orders its arguments consistently this insertion sort returns the same array.
\<close>

fun insort_cmp :: "('a \<Rightarrow> 'a \<Rightarrow> number) \<Rightarrow> 'a \<Rightarrow> 'a list \<Rightarrow> 'a list" where
  "insort_cmp cmp x [] = [x]"
| "insort_cmp cmp x (y # ys) =
     (if num_lt (Fin 0) (cmp x y) then y # insort_cmp cmp x ys else x # y # ys)"

definition js_sort :: "('a \<Rightarrow> 'a \<Rightarrow> number) \<Rightarrow> 'a list \<Rightarrow> 'a list" where
  "js_sort cmp xs = foldr (insort_cmp cmp) xs []"

text \<open>
  The selection loop, which the source writes once for the sell side and once for the
  buy side: it returns the selected tickets with their \<open>allocQty\<close>, and what is left
  of \<open>remainingQty\<close>.
\<close>

fun greedy_select :: "number \<Rightarrow> ticket list \<Rightarrow> (ticket \<times> number) list \<times> number" where
  "greedy_select remainingQty [] = ([], remainingQty)"
| "greedy_select remainingQty (t # ts) =
     (if num_le remainingQty (Fin 0) then ([], remainingQty)
      else
        let allocQty = num_min remainingQty (or_zero (quantity t));
            (selected, left) = greedy_select (num_sub remainingQty allocQty) ts
        in ((t, allocQty) # selected, left))"

definition weighted_sum :: "(ticket \<times> number) list \<Rightarrow> number" where
  "weighted_sum selected =
     foldl (\<lambda>sum (t, allocQty). num_add sum (num_mul (calculateTicketPrice t) allocQty))
       (Fin 0) selected"

text \<open>The em dash that stands for missing incoterms, as its UTF-8 bytes.\<close>

definition em_dash :: string where
  "em_dash = [CHR 0xE2, CHR 0x80, CHR 0x94]"

fun first_ticket :: "(ticket \<times> number) list \<Rightarrow> ticket option" where
  "first_ticket [] = None"
| "first_ticket ((t, _) # _) = Some t"

definition make_order ::
  "env \<Rightarrow> string \<Rightarrow> number \<Rightarrow> (ticket \<times> number) list \<Rightarrow> (ticket \<times> number) list
   \<Rightarrow> number \<Rightarrow> number \<Rightarrow> order_data" where
  "make_order e commodityType targetQty selectedBuys selectedSells avgBuyPrice avgSellPrice =
     \<lparr> order_id = math_floor (num_add (Fin 10000) (num_mul (Fin (random e)) (Fin 90000))),
       buyer = map (\<lambda>(t, _). ticket_id t) selectedBuys,
       seller = map (\<lambda>(t, _). ticket_id t) selectedSells,
       order_commodity_type = commodityType,
       order_metal_form = Option.bind (first_ticket selectedBuys) metal_form,
       order_isri_grade = Option.bind (first_ticket selectedBuys) isri_grade,
       allocated_quantity_mt = targetQty,
       buy_price = avgBuyPrice,
       sell_price = avgSellPrice,
       margin = num_div (num_sub avgSellPrice avgBuyPrice) avgBuyPrice,
       order_status = ''Allocated'',
       transaction_type = ''B2B'',
       order_ship_to = Option.bind (first_ticket selectedSells) ship_to,
       order_ship_from = Option.bind (first_ticket selectedBuys) ship_from,
       product_details =
         str_or (Option.bind (first_ticket selectedBuys) incoterms) em_dash @ '' / '' @
         str_or (Option.bind (first_ticket selectedSells) incoterms) em_dash,
       created_at = now e \<rparr>"

text \<open>\<open>createOrderMutation\<close>: one insert into table \<open>order\<close>.\<close>

definition createOrder :: "env \<Rightarrow> order_data \<Rightarrow> backend \<Rightarrow> (toast_error + order_data) \<times> backend" where
  "createOrder e orderData db =
     (if insert_error e then (Inl CreateFailed, db)
      else (Inr orderData, db\<lparr>orders := orders db @ [orderData]\<rparr>))"

definition fetch_tickets :: "backend \<Rightarrow> string \<Rightarrow> string \<Rightarrow> ticket list" where
  "fetch_tickets db side commodityType =
     filter (\<lambda>t. ticket_type t = side \<and> ticket_status t = ''Approved''
                 \<and> commodity_type t = commodityType) (tickets db)"

definition by_price :: "ticket \<Rightarrow> ticket \<Rightarrow> number" where
  "by_price a b = num_sub (calculateTicketPrice a) (calculateTicketPrice b)"

text \<open>The two selects of \<open>handleOptimize\<close>, which \<open>Promise.all\<close> issues together.\<close>

definition ticket_requests :: "string \<Rightarrow> request list" where
  "ticket_requests commodityType =
     [SelectTickets ''Buy'' ''Approved'' commodityType,
      SelectTickets ''Sell'' ''Approved'' commodityType]"

text \<open>
  \<open>handleOptimize\<close>, on the two text fields of the form (\<open>quantityText\<close> is
  the state variable \<open>quantity\<close>). It returns the toast (the
  error, or the order that was created), the requests it sent and the backend afterwards.
\<close>

definition handleOptimize ::
  "env \<Rightarrow> string \<Rightarrow> string \<Rightarrow> backend \<Rightarrow> (toast_error + order_data) \<times> request list \<times> backend" where
  "handleOptimize e commodityType quantityText db =
     (if commodityType = [] \<or> quantityText = [] then (Inl FillInFields, [], db)
      else
        let targetQty = parseFloat e quantityText;
            reqs = ticket_requests commodityType
        in
        if buy_fetch_error e \<or> sell_fetch_error e then (Inl FetchFailed, reqs, db)
        else
          let buyTickets = fetch_tickets db ''Buy'' commodityType;
              sellTickets = fetch_tickets db ''Sell'' commodityType
          in
          if buyTickets = [] \<or> sellTickets = [] then (Inl NoMatchingTickets, reqs, db)
          else
            let sortedBuyTickets = js_sort by_price buyTickets;
                sortedSellTickets = js_sort (\<lambda>a b. by_price b a) sellTickets;
                (selectedSells, leftSell) = greedy_select targetQty sortedSellTickets
            in
            if num_lt (Fin 0) leftSell then (Inl (NotEnoughSell targetQty), reqs, db)
            else
              let (selectedBuys, leftBuy) = greedy_select targetQty sortedBuyTickets in
              if num_lt (Fin 0) leftBuy then (Inl (NotEnoughBuy targetQty), reqs, db)
              else
                let avgBuyPrice = num_div (weighted_sum selectedBuys) targetQty;
                    avgSellPrice = num_div (weighted_sum selectedSells) targetQty
                in
                if num_le avgSellPrice avgBuyPrice then (Inl BuyExceedsSell, reqs, db)
                else
                  let orderData = make_order e commodityType targetQty selectedBuys
                        selectedSells avgBuyPrice avgSellPrice;
                      (res, db') = createOrder e orderData db
                  in (res, reqs @ [InsertOrder orderData], db'))"

text \<open>
  A \<open>parseFloat\<close> for the strings \<open>digits\<close>, \<open>-digits\<close> and \<open>digits.digits\<close>, on
  which it agrees with the built-in: the double nearest to the decimal number. It is
  used to run the definitions on examples.
\<close>

definition digit_of :: "char \<Rightarrow> nat option" where
  "digit_of = map_of
     [(CHR ''0'', 0), (CHR ''1'', 1), (CHR ''2'', 2), (CHR ''3'', 3), (CHR ''4'', 4),
      (CHR ''5'', 5), (CHR ''6'', 6), (CHR ''7'', 7), (CHR ''8'', 8), (CHR ''9'', 9)]"

fun parse_digits :: "real \<Rightarrow> string \<Rightarrow> real \<times> string" where
  "parse_digits acc [] = (acc, [])"
| "parse_digits acc (c # cs) =
     (case digit_of c of
        Some d \<Rightarrow> parse_digits (10 * acc + real d) cs
      | None \<Rightarrow> (acc, c # cs))"

fun parse_fraction :: "real \<Rightarrow> real \<Rightarrow> string \<Rightarrow> real" where
  "parse_fraction acc scale [] = acc"
| "parse_fraction acc scale (c # cs) =
     (case digit_of c of
        Some d \<Rightarrow> parse_fraction (acc + real d * scale) (scale / 10) cs
      | None \<Rightarrow> acc)"

definition parse_unsigned :: "string \<Rightarrow> number" where
  "parse_unsigned s =
     (case s of
        [] \<Rightarrow> NaN
      | c # cs \<Rightarrow>
          (if digit_of c = None then NaN
           else case parse_digits 0 s of
             (n, rest) \<Rightarrow>
               (case rest of
                  d # ds \<Rightarrow>
                    if d = CHR ''.'' then round_double (parse_fraction n (1 / 10) ds)
                    else round_double n
                | [] \<Rightarrow> round_double n)))"

definition parse_decimal :: "string \<Rightarrow> number" where
  "parse_decimal s =
     (case s of
        [] \<Rightarrow> NaN
      | c # cs \<Rightarrow> if c = CHR ''-'' then num_neg (parse_unsigned cs) else parse_unsigned s)"

definition browser :: env where
  "browser = \<lparr> parseFloat = parse_decimal, random = 0.5, now = ''2025-01-01T00:00:00.000Z'',
     buy_fetch_error = False, sell_fetch_error = False, insert_error = False \<rparr>"


section \<open>Allocation engine\<close>

text \<open>
  A row of table \<open>hedge_execution\<close>, with the columns the price-fixing dialog and the
  hedging summary read or write. Column \<open>id\<close> is \<open>hedge_id\<close>, \<open>status\<close> is
  \<open>hedge_status\<close>, \<open>metal\<close> is \<open>hedge_metal\<close>.
\<close>

record hedge_execution =
  hedge_id :: string
  direction :: string
  hedge_metal :: string
  quantity_mt :: number
  open_quantity_mt :: "number option"
  executed_price :: number
  hedge_status :: "string option"
  closed_price :: "number option"
  closed_at :: "string option"
  updated_at :: "string option"

text \<open>The unions \<open>"ORDER" | "BL_ORDER"\<close> and \<open>"buy" | "sell"\<close> of the dialog's props.\<close>

datatype level = ORDER | BL_ORDER

datatype side = side_buy | side_sell

text \<open>
  A \<open>link_id\<close>: the order id, or the BL order number that the source prints with
  \<open>toString()\<close>.
\<close>

datatype link_key = OrderKey string | BlOrderKey int

text \<open>Rows of \<open>pricing_fixing\<close> (the id is given by the backend) and of \<open>hedge_link\<close>.\<close>

record pricing_fixing =
  fixing_id :: nat
  fixing_level :: level
  fixing_order_id :: "string option"
  fixing_bl_order_id :: "int option"
  fixing_metal :: "string option"
  fixing_quantity_mt :: number
  final_price :: number
  final_price_currency :: string
  fixed_at :: string

record hedge_link =
  hedge_execution_id :: string
  link_id :: "link_key option"
  link_level :: string
  link_allocated_quantity_mt :: number
  link_side :: string
  exec_price :: number
  link_fixing_price :: number
  link_fixing_id :: nat
  link_metal :: "string option"
  link_direction :: string

record hedge_store =
  pricing_fixings :: "pricing_fixing list"
  hedge_links :: "hedge_link list"
  hedge_executions :: "hedge_execution list"

text \<open>
  The props and the state of \<open>PriceFixingDialog\<close>, with the results of its two
  queries (\<open>None\<close> while a query has no data). The two \<open>Record\<close> objects are
  association lists in insertion order; a row of \<open>existingFixings\<close> is its column
  \<open>quantity_mt\<close>.
\<close>

record dialog =
  dialog_level :: level
  orderId :: "string option"
  blOrderId :: "int option"
  metal :: "string option"
  physicalQuantity :: number
  dialog_side :: side
  selectedHedges :: "(string \<times> bool) list"
  allocations :: "(string \<times> string) list"
  fixingPrice :: string
  fixingDate :: string
  existingFixings :: "number option list option"
  hedges :: "hedge_execution list option"

definition alreadyFixedQty :: "dialog \<Rightarrow> number" where
  "alreadyFixedQty d =
     (case existingFixings d of
        None \<Rightarrow> Fin 0
      | Some fs \<Rightarrow> or_zero (Some (foldl (\<lambda>sum f. num_add sum (or_zero f)) (Fin 0) fs)))"

definition availableUnfixedQty :: "dialog \<Rightarrow> number" where
  "availableUnfixedQty d = num_max (Fin 0) (num_sub (physicalQuantity d) (alreadyFixedQty d))"

text \<open>\<open>openQty\<close> of \<open>hedgesWithOpenQty\<close>: \<open>open_quantity_mt ?? quantity_mt\<close>.\<close>

definition openQty :: "hedge_execution \<Rightarrow> number" where
  "openQty h = (case open_quantity_mt h of Some q \<Rightarrow> q | None \<Rightarrow> quantity_mt h)"

definition hedgesWithOpenQty :: "dialog \<Rightarrow> hedge_execution list" where
  "hedgesWithOpenQty d = (case hedges d of None \<Rightarrow> [] | Some hs \<Rightarrow> hs)"

definition find_hedge :: "dialog \<Rightarrow> string \<Rightarrow> hedge_execution option" where
  "find_hedge d hedgeId = find (\<lambda>h. hedge_id h = hedgeId) (hedgesWithOpenQty d)"

text \<open>\<open>selectedHedges[id]\<close> as a condition, and \<open>parseFloat(val) || 0\<close>.\<close>

definition is_selected :: "dialog \<Rightarrow> string \<Rightarrow> bool" where
  "is_selected d hedgeId = (map_of (selectedHedges d) hedgeId = Some True)"

definition parse_or_zero :: "env \<Rightarrow> string \<Rightarrow> number" where
  "parse_or_zero e val = or_zero (Some (parseFloat e val))"

definition totalAllocation :: "env \<Rightarrow> dialog \<Rightarrow> number" where
  "totalAllocation e d =
     foldl (\<lambda>sum (hedgeId, val). num_add sum (parse_or_zero e val)) (Fin 0)
       (filter (\<lambda>(hedgeId, val). is_selected d hedgeId) (allocations d))"

definition exceedsPhysical :: "env \<Rightarrow> dialog \<Rightarrow> bool" where
  "exceedsPhysical e d = num_lt (availableUnfixedQty d) (totalAllocation e d)"

definition hasValidAllocation :: "env \<Rightarrow> dialog \<Rightarrow> bool" where
  "hasValidAllocation e d = num_lt (Fin 0) (totalAllocation e d)"

text \<open>The keys of \<open>allocationErrors\<close> (the messages are not modelled).\<close>

definition allocationErrors :: "env \<Rightarrow> dialog \<Rightarrow> string list" where
  "allocationErrors e d =
     map fst (filter (\<lambda>(hedgeId, val).
         is_selected d hedgeId \<and>
         (case find_hedge d hedgeId of
            None \<Rightarrow> False
          | Some hedge \<Rightarrow> num_lt (openQty hedge) (parse_or_zero e val)))
       (allocations d))"

definition hasAllocationErrors :: "env \<Rightarrow> dialog \<Rightarrow> bool" where
  "hasAllocationErrors e d = (allocationErrors e d \<noteq> [])"

text \<open>
  The writes of a commit, by table and hedge, and the errors \<open>mutationFn\<close> throws:
  the error of a refused write, or the \<open>TypeError\<close> of \<open>blOrderId!.toString()\<close> on
  a missing \<open>blOrderId\<close>. In the functions below, \<open>refused w\<close> says that the
  backend answers the write \<open>w\<close> with an error.
\<close>

datatype db_write = WriteFixing | WriteLink string | WriteExecution string

datatype mutation_error = FixingError | LinkError string | UpdateError string | TypeError

definition selectedIds :: "dialog \<Rightarrow> string list" where
  "selectedIds d = filter (is_selected d) (map fst (selectedHedges d))"

text \<open>\<open>parseFloat(allocations[hedgeId]) || 0\<close>; a missing key parses to NaN.\<close>

definition allocQty_of :: "env \<Rightarrow> dialog \<Rightarrow> string \<Rightarrow> number" where
  "allocQty_of e d hedgeId =
     (case map_of (allocations d) hedgeId of
        None \<Rightarrow> Fin 0
      | Some val \<Rightarrow> parse_or_zero e val)"

text \<open>
  The row that the insert into \<open>pricing_fixing\<close> returns; the backend numbers the
  fixings in the order it stores them.
\<close>

definition new_fixing :: "env \<Rightarrow> dialog \<Rightarrow> hedge_store \<Rightarrow> pricing_fixing" where
  "new_fixing e d st =
     \<lparr> fixing_id = length (pricing_fixings st),
       fixing_level = dialog_level d,
       fixing_order_id = (if dialog_level d = ORDER then orderId d else None),
       fixing_bl_order_id = (if dialog_level d = BL_ORDER then blOrderId d else None),
       fixing_metal = metal d,
       fixing_quantity_mt = totalAllocation e d,
       final_price = parseFloat e (fixingPrice d),
       final_price_currency = ''USD'',
       fixed_at = fixingDate d \<rparr>"

definition link_id_of :: "dialog \<Rightarrow> mutation_error + link_key option" where
  "link_id_of d =
     (if dialog_level d = ORDER then Inr (map_option OrderKey (orderId d))
      else case blOrderId d of
        None \<Rightarrow> Inl TypeError
      | Some n \<Rightarrow> Inr (Some (BlOrderKey n)))"

definition new_link ::
  "env \<Rightarrow> dialog \<Rightarrow> pricing_fixing \<Rightarrow> string \<Rightarrow> hedge_execution \<Rightarrow> number
   \<Rightarrow> link_key option \<Rightarrow> hedge_link" where
  "new_link e d fixingData hedgeId hedge allocQty key =
     \<lparr> hedge_execution_id = hedgeId,
       link_id = key,
       link_level = (if dialog_level d = ORDER then ''Order'' else ''Bl_order''),
       link_allocated_quantity_mt = allocQty,
       link_side = (case dialog_side d of side_buy \<Rightarrow> ''BUY'' | side_sell \<Rightarrow> ''SELL''),
       exec_price = executed_price hedge,
       link_fixing_price = parseFloat e (fixingPrice d),
       link_fixing_id = fixing_id fixingData,
       link_metal = metal d,
       link_direction = direction hedge \<rparr>"

text \<open>The row that \<open>update({...}).eq("id", hedgeId)\<close> leaves in place of row \<open>r\<close>.\<close>

definition update_execution ::
  "env \<Rightarrow> dialog \<Rightarrow> hedge_execution \<Rightarrow> number \<Rightarrow> hedge_execution \<Rightarrow> hedge_execution" where
  "update_execution e d hedge allocQty r =
     (let newOpenQty = num_sub (openQty hedge) allocQty;
          newStatus = (if num_le newOpenQty (Fin 0) then ''CLOSED'' else ''PARTIALLY_CLOSED'')
      in r\<lparr> open_quantity_mt := Some (num_max (Fin 0) newOpenQty),
            hedge_status := Some newStatus,
            closed_price :=
              (if num_le newOpenQty (Fin 0) then Some (parseFloat e (fixingPrice d)) else None),
            closed_at := (if num_le newOpenQty (Fin 0) then Some (now e) else None),
            updated_at := Some (now e) \<rparr>)"

text \<open>
  Step 2 of \<open>mutationFn\<close>: the loop over the selected hedges. It stops at the first
  error, with the store as the writes before it left it.
\<close>

fun link_hedges ::
  "env \<Rightarrow> (db_write \<Rightarrow> bool) \<Rightarrow> dialog \<Rightarrow> pricing_fixing \<Rightarrow> string list \<Rightarrow> hedge_store
   \<Rightarrow> mutation_error option \<times> hedge_store" where
  "link_hedges e refused d fixingData [] st = (None, st)"
| "link_hedges e refused d fixingData (hedgeId # rest) st =
     (let allocQty = allocQty_of e d hedgeId in
      if num_le allocQty (Fin 0) then link_hedges e refused d fixingData rest st
      else case find_hedge d hedgeId of
        None \<Rightarrow> link_hedges e refused d fixingData rest st
      | Some hedge \<Rightarrow>
          (case link_id_of d of
             Inl err \<Rightarrow> (Some err, st)
           | Inr key \<Rightarrow>
               if refused (WriteLink hedgeId) then (Some (LinkError hedgeId), st)
               else
                 let st1 = st\<lparr>hedge_links := hedge_links st
                              @ [new_link e d fixingData hedgeId hedge allocQty key]\<rparr>
                 in
                 if refused (WriteExecution hedgeId) then (Some (UpdateError hedgeId), st1)
                 else link_hedges e refused d fixingData rest
                   (st1\<lparr>hedge_executions :=
                      map (\<lambda>r. if hedge_id r = hedgeId
                                then update_execution e d hedge allocQty r else r)
                        (hedge_executions st1)\<rparr>)))"

text \<open>\<open>fixingMutation\<close>: the insert of the fixing, then the loop.\<close>

definition fixingMutation ::
  "env \<Rightarrow> (db_write \<Rightarrow> bool) \<Rightarrow> dialog \<Rightarrow> hedge_store
   \<Rightarrow> (mutation_error + pricing_fixing) \<times> hedge_store" where
  "fixingMutation e refused d st =
     (if refused WriteFixing then (Inl FixingError, st)
      else
        let fixingData = new_fixing e d st;
            st1 = st\<lparr>pricing_fixings := pricing_fixings st @ [fixingData]\<rparr>
        in case link_hedges e refused d fixingData (selectedIds d) st1 of
             (Some err, st2) \<Rightarrow> (Inl err, st2)
           | (None, st2) \<Rightarrow> (Inr fixingData, st2))"

text \<open>\<open>handleSubmit\<close>, with its four error toasts and the failure of the mutation.\<close>

datatype submit_error =
    NoAllocation
  | ExceedsAvailable
  | ExceedsOpenQuantity
  | InvalidPrice
  | MutationFailed mutation_error

definition handleSubmit ::
  "env \<Rightarrow> (db_write \<Rightarrow> bool) \<Rightarrow> dialog \<Rightarrow> hedge_store
   \<Rightarrow> (submit_error + pricing_fixing) \<times> hedge_store" where
  "handleSubmit e refused d st =
     (if \<not> hasValidAllocation e d then (Inl NoAllocation, st)
      else if exceedsPhysical e d then (Inl ExceedsAvailable, st)
      else if hasAllocationErrors e d then (Inl ExceedsOpenQuantity, st)
      else if fixingPrice d = [] \<or> num_le (parseFloat e (fixingPrice d)) (Fin 0)
        then (Inl InvalidPrice, st)
      else case fixingMutation e refused d st of
             (Inl err, st') \<Rightarrow> (Inl (MutationFailed err), st')
           | (Inr fixingData, st') \<Rightarrow> (Inr fixingData, st'))"


section \<open>Exposure aggregator\<close>

text \<open>
  \<open>netExposure\<close> of \<open>HedgingSummarySection\<close>: the value and the label. The label
  carries the number that the source prints with two decimals.
\<close>

datatype exposure_label = Flat | Long number | Short number

definition netExposure :: "hedge_execution list option \<Rightarrow> number \<times> exposure_label" where
  "netExposure linkedHedges =
     (case linkedHedges of
        None \<Rightarrow> (Fin 0, Flat)
      | Some hs \<Rightarrow>
          if hs = [] then (Fin 0, Flat)
          else
            let net = foldl (\<lambda>sum h. num_add sum
                        (if direction h = ''Buy'' then openQty h else num_neg (openQty h)))
                      (Fin 0) hs
            in if num_lt (num_abs net) (lit 0.01) then (Fin 0, Flat)
               else if num_lt (Fin 0) net then (net, Long net)
               else (net, Short (num_abs net)))"


section \<open>Notions used to state the properties\<close>

text \<open>
  The total of \<open>quantity || 0\<close> over a pool and the total \<open>allocQty\<close> of a selection,
  as sums of reals.
\<close>

definition total_quantity :: "ticket list \<Rightarrow> real" where
  "total_quantity ts = sum_list (map (\<lambda>t. the_Fin (or_zero (quantity t))) ts)"

definition allocated :: "(ticket \<times> number) list \<Rightarrow> real" where
  "allocated selected = sum_list (map (\<lambda>(t, allocQty). the_Fin allocQty) selected)"

text \<open>
  A whole quantity is an integer from 0 to \<open>2 ^ 53\<close>; the differences of whole
  quantities are computed without rounding.
\<close>

definition is_whole :: "real \<Rightarrow> bool" where
  "is_whole x = (x = of_int \<lfloor>x\<rfloor> \<and> 0 \<le> x \<and> x \<le> 2 ^ 53)"


text \<open>
  The term that an execution adds to the net exposure, written with the two columns
  that \<open>openQty\<close> reads.
\<close>

definition signed_open :: "hedge_execution \<Rightarrow> number" where
  "signed_open h =
     (let q = (case open_quantity_mt h of Some q \<Rightarrow> q | None \<Rightarrow> quantity_mt h)
      in if direction h = ''Buy'' then q else num_neg q)"

text \<open>
  The sum of these terms as a sum of reals (a zero of either sign counts 0), and the
  executions whose quantity is whole.
\<close>

definition real_of_number :: "number \<Rightarrow> real" where
  "real_of_number n = (case n of Fin x \<Rightarrow> x | _ \<Rightarrow> 0)"

definition exact_net :: "hedge_execution list \<Rightarrow> real" where
  "exact_net hs = sum_list (map (\<lambda>h. real_of_number (signed_open h)) hs)"

definition whole_open :: "hedge_execution \<Rightarrow> bool" where
  "whole_open h =
     (case (case open_quantity_mt h of Some q \<Rightarrow> q | None \<Rightarrow> quantity_mt h) of
        Fin q \<Rightarrow> is_whole q
      | _ \<Rightarrow> False)"

text \<open>Example tickets and pools.\<close>

definition sell_a :: ticket where
  "sell_a = blank_ticket \<lparr> ticket_id := 1, ticket_type := ''Sell'',
     pricing_type := Some ''Fixed'', signed_price := Some (Fin 520),
     quantity := Some (Fin 30) \<rparr>"

definition buy_a :: ticket where
  "buy_a = blank_ticket \<lparr> ticket_id := 3, ticket_type := ''Buy'',
     pricing_type := Some ''Fixed'', signed_price := Some (Fin 450),
     quantity := Some (Fin 40) \<rparr>"

definition pool_a :: backend where
  "pool_a = \<lparr> tickets = [sell_a, buy_a], orders = [] \<rparr>"

definition empty_buy :: ticket where
  "empty_buy = blank_ticket \<lparr> ticket_id := 7, ticket_type := ''Buy'',
     pricing_type := Some ''Fixed'', signed_price := Some (Fin 400),
     quantity := Some (Fin 0), metal_form := Some ''Ingot'' \<rparr>"

definition pool_b :: backend where
  "pool_b = \<lparr> tickets = [sell_a, buy_a, empty_buy], orders = [] \<rparr>"








text \<open>
  Pools whose quantities have two decimals: sell tickets of 125.11 and 330.95 MT, and
  sell tickets of 450.3, 390.3 and 325.4 MT, each with a buy ticket of 2000 MT.
\<close>

definition priced :: "int \<Rightarrow> string \<Rightarrow> real \<Rightarrow> real \<Rightarrow> ticket" where
  "priced i side p q = blank_ticket \<lparr> ticket_id := i, ticket_type := side,
     pricing_type := Some ''Fixed'', signed_price := Some (lit p), quantity := Some (lit q) \<rparr>"



text \<open>Example hedge executions, dialogs and stores.\<close>

definition hedge_a :: hedge_execution where
  "hedge_a = \<lparr> hedge_id = ''h1'', direction = ''Buy'', hedge_metal = ''Copper'',
     quantity_mt = Fin 40, open_quantity_mt = None, executed_price = Fin 9400,
     hedge_status = Some ''OPEN'', closed_price = None, closed_at = None,
     updated_at = None \<rparr>"

definition hedge_b :: hedge_execution where
  "hedge_b = \<lparr> hedge_id = ''h2'', direction = ''Buy'', hedge_metal = ''Copper'',
     quantity_mt = Fin 40, open_quantity_mt = Some (Fin 40), executed_price = Fin 9450,
     hedge_status = Some ''OPEN'', closed_price = None, closed_at = None,
     updated_at = None \<rparr>"

definition hedge_c :: hedge_execution where
  "hedge_c = \<lparr> hedge_id = ''h3'', direction = ''Sell'', hedge_metal = ''Copper'',
     quantity_mt = Fin 60, open_quantity_mt = Some (Fin 25), executed_price = Fin 9300,
     hedge_status = Some ''PARTIALLY_CLOSED'', closed_price = None, closed_at = None,
     updated_at = None \<rparr>"

definition dialog_a :: dialog where
  "dialog_a = \<lparr> dialog_level = ORDER, orderId = Some ''ord1'', blOrderId = None,
     metal = Some ''Copper'', physicalQuantity = Fin 100, dialog_side = side_sell,
     selectedHedges = [(''h1'', True), (''h2'', True)],
     allocations = [(''h1'', ''40''), (''h2'', ''15'')],
     fixingPrice = ''9500'', fixingDate = ''2025-01-01'',
     existingFixings = Some [Some (Fin 40)], hedges = Some [hedge_a, hedge_b] \<rparr>"

definition dialog_b :: dialog where
  "dialog_b = dialog_a \<lparr> allocations := [(''h1'', ''40''), (''h2'', ''0'')] \<rparr>"

definition store_a :: hedge_store where
  "store_a = \<lparr> pricing_fixings = [], hedge_links = [], hedge_executions = [hedge_a, hedge_b] \<rparr>"

text \<open>
  A dialog on execution \<open>h3\<close>, of which 25 of 60 MT are open, with an allocation of
  10 MT (\<open>dialog_c\<close>) or of 25 MT (\<open>dialog_d\<close>), and its store.
\<close>

definition dialog_c :: dialog where
  "dialog_c = dialog_a \<lparr> selectedHedges := [(''h3'', True)],
     allocations := [(''h3'', ''10'')], hedges := Some [hedge_c] \<rparr>"

definition dialog_d :: dialog where
  "dialog_d = dialog_c \<lparr> allocations := [(''h3'', ''25'')] \<rparr>"

definition store_c :: hedge_store where
  "store_c = \<lparr> pricing_fixings = [], hedge_links = [], hedge_executions = [hedge_c] \<rparr>"

text \<open>
  A dialog that allocates 15 MT to each of \<open>h1\<close> and \<open>h2\<close>, and the store that a
  commit of it leaves when the insert of the link of \<open>h2\<close> is refused. The dialog
  still holds the executions as it loaded them.
\<close>

definition dialog_r :: dialog where
  "dialog_r = dialog_a \<lparr> allocations := [(''h1'', ''15''), (''h2'', ''15'')] \<rparr>"

definition store_r :: hedge_store where
  "store_r = snd (fixingMutation browser (\<lambda>w. w = WriteLink ''h2'') dialog_r store_a)"

text \<open>Executions whose open quantities have two decimals.\<close>

definition opened :: "string \<Rightarrow> string \<Rightarrow> real \<Rightarrow> hedge_execution" where
  "opened i dir q = hedge_a \<lparr> hedge_id := i, direction := dir, quantity_mt := Fin 500,
     open_quantity_mt := Some (lit q) \<rparr>"

section \<open>Properties of the rounding\<close>

subsection \<open>Evaluation\<close>

lemma bitlen_numeral [simp]:
  "bitlen 1 = 1"
  "bitlen (numeral Num.One) = 1"
  "bitlen (numeral (Num.Bit0 w)) = bitlen (numeral w) + 1"
  "bitlen (numeral (Num.Bit1 w)) = bitlen (numeral w) + 1"
proof -
  show "bitlen 1 = 1" by (subst compute_bitlen) simp
  then show "bitlen (numeral Num.One) = 1" by simp
  have "bitlen (numeral (Num.Bit0 w)) = bitlen (numeral (Num.Bit0 w) div 2) + 1"
    by (subst compute_bitlen) simp
  then show "bitlen (numeral (Num.Bit0 w)) = bitlen (numeral w) + 1" by simp
  have "bitlen (numeral (Num.Bit1 w)) = bitlen (numeral (Num.Bit1 w) div 2) + 1"
    by (subst compute_bitlen) simp
  then show "bitlen (numeral (Num.Bit1 w)) = bitlen (numeral w) + 1" by simp
qed

lemma round_double_examples:
  "round_double (1 / 10) = Fin (3602879701896397 / 36028797018963968)"
  "round_double (- (1 / 10)) = Fin (- (3602879701896397 / 36028797018963968))"
  "round_double (2 ^ 53 + 1) = Fin (2 ^ 53)"
  "round_double (2 ^ 53 + 3) = Fin (2 ^ 53 + 4)"
  "round_double (1 / 2 ^ 1075) = Fin 0"
  "round_double (3 / 2 ^ 1075) = Fin (1 / 2 ^ 1073)"
  "round_double (- (1 / 2 ^ 1076)) = NegZero"
  "round_double (2 ^ 1024 - 2 ^ 970) = PInf"
  "round_double (2 ^ 1024 - 2 ^ 970 - 1) = Fin (2 ^ 1024 - 2 ^ 971)"
  by (simp_all add: round_double_def mantissa_def ulp_exp_def floor_log2_def
        round_half_even_def Let_def)

subsection \<open>Bounds\<close>

lemma powi_nat: "0 \<le> k \<Longrightarrow> (2::real) powi k = 2 ^ nat k"
  by (simp add: power_int_def)

lemma powi_neg_nat: "0 \<le> k \<Longrightarrow> (2::real) powi (- k) = 1 / 2 ^ nat k"
  by (simp add: power_int_minus powi_nat field_simps)

lemma floor_log2_bounds:
  assumes "0 < a"
  shows "2 powi (floor_log2 a) \<le> a \<and> a < 2 powi (floor_log2 a + 1)"
proof (cases "1 \<le> a")
  case True
  let ?m = "\<lfloor>a\<rfloor>"
  have m: "0 < ?m" using True by simp
  from bitlen_bounds [OF m] have lo: "2 ^ nat (bitlen ?m - 1) \<le> ?m"
    and hi: "?m < 2 ^ nat (bitlen ?m)" by simp_all
  have b1: "1 \<le> bitlen ?m" using m by (simp add: bitlen_alt_def)
  have e: "floor_log2 a = bitlen ?m - 1" using True by (simp add: floor_log2_def)
  have "real_of_int (2 ^ nat (bitlen ?m - 1)) \<le> real_of_int ?m" using lo by linarith
  then have "(2::real) ^ nat (bitlen ?m - 1) \<le> a" by (simp add: le_floor_iff)
  then have A: "2 powi (floor_log2 a) \<le> a" using b1 by (simp add: e powi_nat)
  have "?m + 1 \<le> 2 ^ nat (bitlen ?m)" using hi by simp
  then have "real_of_int (?m + 1) \<le> real_of_int (2 ^ nat (bitlen ?m))" by linarith
  then have "real_of_int ?m + 1 \<le> (2::real) ^ nat (bitlen ?m)" by simp
  moreover have "a < real_of_int ?m + 1" by linarith
  ultimately have "a < (2::real) ^ nat (bitlen ?m)" by linarith
  then have B: "a < 2 powi (floor_log2 a + 1)" using b1 by (simp add: e powi_nat)
  from A B show ?thesis ..
next
  case False
  then have a1: "a < 1" by simp
  let ?m = "\<lceil>1 / a\<rceil>"
  have y: "1 < 1 / a" using assms a1 by simp
  then have m2: "2 \<le> ?m" by linarith
  then have m1: "0 < ?m - 1" by simp
  let ?j = "bitlen (?m - 1)"
  from bitlen_bounds [OF m1] have lo: "2 ^ nat (?j - 1) \<le> ?m - 1"
    and hi: "?m - 1 < 2 ^ nat ?j" by simp_all
  have j1: "1 \<le> ?j" using m1 by (simp add: bitlen_alt_def)
  have e: "floor_log2 a = - ?j" using False by (simp add: floor_log2_def)
  have "?m \<le> 2 ^ nat ?j" using hi by simp
  then have "real_of_int ?m \<le> real_of_int (2 ^ nat ?j)" by linarith
  then have "real_of_int ?m \<le> (2::real) ^ nat ?j" by simp
  moreover have "1 / a \<le> real_of_int ?m" by (rule le_of_int_ceiling)
  ultimately have "1 / a \<le> 2 ^ nat ?j" by linarith
  then have "1 / 2 ^ nat ?j \<le> a" using assms by (simp add: field_simps)
  then have A: "2 powi (floor_log2 a) \<le> a" using j1 by (simp add: e powi_neg_nat)
  have "real_of_int (2 ^ nat (?j - 1)) \<le> real_of_int (?m - 1)" using lo by linarith
  then have "(2::real) ^ nat (?j - 1) \<le> real_of_int ?m - 1" by simp
  moreover have "real_of_int ?m - 1 < 1 / a" by linarith
  ultimately have "2 ^ nat (?j - 1) < 1 / a" by linarith
  then have "a < 1 / 2 ^ nat (?j - 1)" using assms by (simp add: field_simps)
  moreover have "floor_log2 a + 1 = - (?j - 1)" by (simp add: e)
  ultimately have B: "a < 2 powi (floor_log2 a + 1)"
    using j1 powi_neg_nat [of "?j - 1"] by simp
  from A B show ?thesis ..
qed

lemma round_half_even_lower: "real_of_int m \<le> t \<Longrightarrow> m \<le> round_half_even t"
proof -
  assume "real_of_int m \<le> t"
  then have "m \<le> \<lfloor>t\<rfloor>" by (simp add: le_floor_iff)
  moreover have "\<lfloor>t\<rfloor> \<le> round_half_even t" by (simp add: round_half_even_def Let_def)
  ultimately show ?thesis by simp
qed

lemma round_half_even_upper: "t \<le> real_of_int m \<Longrightarrow> round_half_even t \<le> m"
proof -
  assume le: "t \<le> real_of_int m"
  show ?thesis
  proof (cases "t = real_of_int \<lfloor>t\<rfloor>")
    case True
    then have "round_half_even t = \<lfloor>t\<rfloor>" by (simp add: round_half_even_def Let_def)
    moreover have "\<lfloor>t\<rfloor> \<le> m" using le by (simp add: floor_le_iff)
    ultimately show ?thesis by simp
  next
    case False
    then have "real_of_int \<lfloor>t\<rfloor> < t" by linarith
    then have "real_of_int \<lfloor>t\<rfloor> < real_of_int m" using le by linarith
    then have "\<lfloor>t\<rfloor> + 1 \<le> m" by linarith
    moreover have "round_half_even t \<le> \<lfloor>t\<rfloor> + 1" by (simp add: round_half_even_def Let_def)
    ultimately show ?thesis by simp
  qed
qed


lemma round_double_unfold:
  "x \<noteq> 0 \<Longrightarrow> round_double x =
     (if 2 ^ 1024 \<le> real_of_int (mantissa \<bar>x\<bar>) * 2 powi ulp_exp \<bar>x\<bar>
      then (if 0 < x then PInf else NInf)
      else if real_of_int (mantissa \<bar>x\<bar>) * 2 powi ulp_exp \<bar>x\<bar> = 0
      then (if 0 < x then Fin 0 else NegZero)
      else Fin (if 0 < x then real_of_int (mantissa \<bar>x\<bar>) * 2 powi ulp_exp \<bar>x\<bar>
                else - (real_of_int (mantissa \<bar>x\<bar>) * 2 powi ulp_exp \<bar>x\<bar>)))"
  by (simp add: round_double_def Let_def)

lemma ulp_exp_ge: "- 1074 \<le> ulp_exp a"
  by (simp add: ulp_exp_def)

lemma powi_pos [simp]: "0 < (2::real) powi k"
  by simp

lemma powi_quot: "(2::real) powi m / 2 powi n = 2 powi (m - n)"
  by (simp add: power_int_diff)

lemma powi_mult: "(2::real) powi m * 2 powi n = 2 powi (m + n)"
  by (simp add: power_int_add)

lemma powi_mono: "m \<le> n \<Longrightarrow> (2::real) powi m \<le> 2 powi n"
  by (rule power_int_increasing) simp_all

lemma powi_less_imp: "(2::real) powi m < 2 powi n \<Longrightarrow> m < n"
  using powi_mono [of n m] by (cases "m < n") auto

lemma mantissa_bounds:
  assumes "0 < a"
  shows "0 \<le> mantissa a" and "mantissa a \<le> 2 ^ 53"
    and "- 1074 < ulp_exp a \<Longrightarrow> 2 ^ 52 \<le> mantissa a"
proof -
  let ?e = "floor_log2 a" and ?k = "ulp_exp a"
  from floor_log2_bounds [OF assms] have lo: "2 powi ?e \<le> a" and hi: "a < 2 powi (?e + 1)"
    by simp_all
  have "real_of_int 0 \<le> a / 2 powi ?k" using assms by simp
  then show "0 \<le> mantissa a" unfolding mantissa_def by (rule round_half_even_lower)
  have "?e + 1 \<le> ?k + 53" by (simp add: ulp_exp_def)
  then have "2 powi (?e + 1) \<le> (2::real) powi (?k + 53)" by (rule powi_mono)
  with hi have "a < 2 powi (?k + 53)" by linarith
  then have "a / 2 powi ?k < 2 powi (?k + 53) / 2 powi ?k"
    by (simp add: divide_strict_right_mono)
  also have "\<dots> = 2 powi 53" by (simp add: powi_quot)
  finally have "a / 2 powi ?k \<le> real_of_int (2 ^ 53)" by simp
  then show "mantissa a \<le> 2 ^ 53" unfolding mantissa_def by (rule round_half_even_upper)
  show "2 ^ 52 \<le> mantissa a" if "- 1074 < ?k"
  proof -
    from that have k: "?k = ?e - 52" by (simp add: ulp_exp_def max_def split: if_splits)
    have "2 powi (?k + 52) / 2 powi ?k \<le> a / 2 powi ?k"
      using lo by (simp add: k divide_right_mono)
    moreover have "(2::real) powi (?k + 52) / 2 powi ?k = 2 powi 52" by (simp add: powi_quot)
    ultimately have "real_of_int (2 ^ 52) \<le> a / 2 powi ?k" by simp
    then show ?thesis unfolding mantissa_def by (rule round_half_even_lower)
  qed
qed

lemma round_double_pos_cases:
  assumes "0 < x"
  shows "round_double x = PInf
     \<or> round_double x = Fin (real_of_int (mantissa x) * 2 powi ulp_exp x)"
  using assms by (auto simp: round_double_unfold)

lemma round_double_lower:
  assumes "2 powi j \<le> x" and "- 1074 \<le> j"
  shows "round_double x = PInf \<or> (\<exists>y. round_double x = Fin y \<and> 2 powi j \<le> y)"
proof -
  have x: "0 < x" using assms(1) powi_pos [of j] by linarith
  let ?e = "floor_log2 x" and ?k = "ulp_exp x"
  from floor_log2_bounds [OF x] have hi: "x < 2 powi (?e + 1)" by simp
  have "2 powi j \<le> real_of_int (mantissa x) * 2 powi ?k"
  proof (cases "- 1074 < ?k")
    case True
    then have k: "?k = ?e - 52" by (simp add: ulp_exp_def max_def split: if_splits)
    from mantissa_bounds(3) [OF x True] have "real_of_int (2 ^ 52) \<le> real_of_int (mantissa x)"
      by linarith
    then have "2 ^ 52 * 2 powi ?k \<le> real_of_int (mantissa x) * 2 powi ?k"
      by (simp add: mult_right_mono)
    moreover have "(2::real) ^ 52 * 2 powi ?k = 2 powi ?e"
      using powi_mult [of 52 ?k] by (simp add: k)
    moreover have "j \<le> ?e"
    proof -
      from assms(1) hi have "(2::real) powi j < 2 powi (?e + 1)" by linarith
      then have "j < ?e + 1" by (rule powi_less_imp)
      then show ?thesis by simp
    qed
    then have "(2::real) powi j \<le> 2 powi ?e" by (rule powi_mono)
    ultimately show ?thesis by linarith
  next
    case False
    then have k: "?k = - 1074" using ulp_exp_ge [of x] by simp
    have nn: "0 \<le> j - ?k" using assms(2) k by simp
    have "2 powi j / 2 powi ?k \<le> x / 2 powi ?k"
      using assms(1) by (simp add: divide_right_mono)
    moreover have "(2::real) powi j / 2 powi ?k = 2 powi (j - ?k)"
      by (rule powi_quot)
    moreover have "(2::real) powi (j - ?k) = real_of_int (2 ^ nat (j - ?k))"
      using nn by (simp add: powi_nat)
    ultimately have "real_of_int (2 ^ nat (j - ?k)) \<le> x / 2 powi ?k" by linarith
    then have "2 ^ nat (j - ?k) \<le> mantissa x"
      unfolding mantissa_def by (rule round_half_even_lower)
    then have "real_of_int (2 ^ nat (j - ?k)) \<le> real_of_int (mantissa x)" by linarith
    then have "real_of_int (2 ^ nat (j - ?k)) * 2 powi ?k \<le> real_of_int (mantissa x) * 2 powi ?k"
      by (rule mult_right_mono) simp
    moreover have "real_of_int (2 ^ nat (j - ?k)) * 2 powi ?k = 2 powi (j - ?k) * 2 powi ?k"
      using nn by (simp add: powi_nat)
    moreover have "(2::real) powi (j - ?k) * 2 powi ?k = 2 powi j"
      using powi_mult [of "j - ?k" ?k] by simp
    ultimately show ?thesis by linarith
  qed
  with round_double_pos_cases [OF x] show ?thesis by auto
qed

lemma round_double_zero [simp]: "round_double 0 = Fin 0"
  by (simp add: round_double_def)

lemma round_double_sign:
  "0 \<le> x \<Longrightarrow> round_double x = PInf \<or> (\<exists>y\<ge>0. round_double x = Fin y)"
  "x \<le> 0 \<Longrightarrow> round_double x = NInf \<or> round_double x = NegZero
     \<or> (\<exists>y\<le>0. round_double x = Fin y)"
proof -
  have m: "0 \<le> real_of_int (mantissa \<bar>x\<bar>) * 2 powi ulp_exp \<bar>x\<bar>" if "x \<noteq> 0"
    using mantissa_bounds(1) [of "\<bar>x\<bar>"] that by simp
  show "round_double x = PInf \<or> (\<exists>y\<ge>0. round_double x = Fin y)" if "0 \<le> x"
  proof (cases "x = 0")
    case True
    then show ?thesis by (intro disjI2 exI [of _ 0]) simp
  next
    case False
    with that have "0 < x" by simp
    with m [OF False] show ?thesis by (auto simp: round_double_unfold)
  qed
  show "round_double x = NInf \<or> round_double x = NegZero
     \<or> (\<exists>y\<le>0. round_double x = Fin y)" if "x \<le> 0"
  proof (cases "x = 0")
    case True
    then show ?thesis by (intro disjI2 exI [of _ 0]) simp_all
  next
    case False
    with that have "x < 0" by simp
    with m [OF False] show ?thesis by (auto simp: round_double_unfold)
  qed
qed

lemma round_double_normal_form:
  assumes "round_double x = Fin y" and "0 < y"
  shows "\<exists>n k. normal_form y n k"
proof -
  have x: "0 < x"
  proof (rule ccontr)
    assume "\<not> 0 < x"
    then have "x \<le> 0" by simp
    from round_double_sign(2) [OF this] assms show False by auto
  qed
  from round_double_pos_cases [OF x] assms(1)
  have y: "y = real_of_int (mantissa x) * 2 powi ulp_exp x" by auto
  have "0 < mantissa x"
  proof (rule ccontr)
    assume "\<not> 0 < mantissa x"
    with mantissa_bounds(1) [OF x] have "mantissa x = 0" by simp
    with y assms(2) show False by simp
  qed
  with y mantissa_bounds(2,3) [OF x] ulp_exp_ge [of x] show ?thesis
    unfolding normal_form_def by blast
qed

lemma normal_form_gap:
  assumes b: "normal_form b nb kb" and s: "normal_form s ns ks" and lt: "b < s"
  shows "2 powi kb \<le> s - b"
proof -
  have kk: "kb \<le> ks"
  proof (rule ccontr)
    assume "\<not> kb \<le> ks"
    then have less: "ks \<le> kb - 1" by simp
    then have "- 1074 < kb" using s by (simp add: normal_form_def)
    then have "2 ^ 52 \<le> nb" using b by (simp add: normal_form_def)
    then have "real_of_int (2 ^ 52) \<le> real_of_int nb" by linarith
    then have "2 ^ 52 * 2 powi kb \<le> real_of_int nb * 2 powi kb"
      by (simp add: mult_right_mono)
    then have b52: "2 ^ 52 * 2 powi kb \<le> b" using b by (simp add: normal_form_def)
    have "real_of_int ns \<le> real_of_int (2 ^ 53)" using s unfolding normal_form_def by linarith
    then have "real_of_int ns * 2 powi ks \<le> 2 ^ 53 * 2 powi ks"
      by (simp add: mult_right_mono)
    moreover have "(2::real) powi ks \<le> 2 powi (kb - 1)" using less by (rule powi_mono)
    then have "(2::real) ^ 53 * 2 powi ks \<le> 2 ^ 53 * 2 powi (kb - 1)" by simp
    moreover have "(2::real) ^ 53 * 2 powi (kb - 1) = 2 ^ 52 * 2 powi kb"
      using powi_mult [of 53 "kb - 1"] powi_mult [of 52 kb] by simp
    moreover have "s = real_of_int ns * 2 powi ks" using s by (simp add: normal_form_def)
    ultimately have "s \<le> 2 ^ 52 * 2 powi kb" by linarith
    with b52 lt show False by linarith
  qed
  define N where "N = ns * 2 ^ nat (ks - kb)"
  have "(2::real) powi ks = 2 powi (ks - kb) * 2 powi kb" by (simp add: powi_mult)
  also have "(2::real) powi (ks - kb) = 2 ^ nat (ks - kb)" using kk by (simp add: powi_nat)
  finally have "s = real_of_int N * 2 powi kb"
    using s by (simp add: normal_form_def N_def)
  moreover have "b = real_of_int nb * 2 powi kb" using b by (simp add: normal_form_def)
  ultimately have diff: "s - b = real_of_int (N - nb) * 2 powi kb"
    by (simp add: algebra_simps)
  with lt have "0 < real_of_int (N - nb) * 2 powi kb" by simp
  then have "0 < real_of_int (N - nb)"
    using powi_pos [of kb] by (simp add: zero_less_mult_iff del: powi_pos)
  then have "0 < N - nb" by simp
  then have "1 \<le> N - nb" by simp
  then have "1 \<le> real_of_int (N - nb)" by (simp only: of_int_1_le_iff)
  then have "1 * 2 powi kb \<le> real_of_int (N - nb) * 2 powi kb"
    by (rule mult_right_mono) simp
  with diff show ?thesis by simp
qed

subsection \<open>Integers\<close>

lemma round_half_even_int [simp]: "round_half_even (real_of_int m) = m"
  by (simp add: round_half_even_def Let_def)

lemma mantissa_exact:
  assumes "a = real_of_int M * 2 powi ulp_exp a"
  shows "real_of_int (mantissa a) * 2 powi ulp_exp a = a"
proof -
  have "a / 2 powi ulp_exp a = real_of_int M"
    using assms powi_pos [of "ulp_exp a"] by (metis nonzero_mult_div_cancel_right less_irrefl)
  then have "mantissa a = M" by (simp add: mantissa_def)
  with assms show ?thesis by simp
qed

lemma round_double_int:
  assumes "\<bar>n\<bar> \<le> 2 ^ 53"
  shows "round_double (real_of_int n) = Fin (real_of_int n)"
proof (cases "n = 0")
  case True
  then show ?thesis by simp
next
  case False
  define a where "a = real_of_int \<bar>n\<bar>"
  let ?e = "floor_log2 a" and ?k = "ulp_exp a"
  have "1 \<le> \<bar>n\<bar>" using False by simp
  then have a1: "1 \<le> a" unfolding a_def by (simp only: of_int_1_le_iff)
  have "real_of_int \<bar>n\<bar> \<le> real_of_int (2 ^ 53)" using assms by (simp only: of_int_le_iff)
  then have a53: "a \<le> 2 powi 53" by (simp add: a_def)
  have pos: "0 < a" using a1 by simp
  from floor_log2_bounds [OF pos] have lo: "2 powi ?e \<le> a" and hi: "a < 2 powi (?e + 1)"
    by simp_all
  have "(2::real) powi 0 < 2 powi (?e + 1)" using a1 hi by simp
  then have e0: "0 \<le> ?e" using powi_less_imp [of 0 "?e + 1"] by simp
  have e53: "?e \<le> 53"
  proof (rule ccontr)
    assume "\<not> ?e \<le> 53"
    then have "54 \<le> ?e" by simp
    then have "(2::real) powi 54 \<le> 2 powi ?e" by (rule powi_mono)
    with lo a53 have "(2::real) powi 54 \<le> 2 powi 53" by linarith
    then show False by simp
  qed
  have k: "?k = ?e - 52" using e0 by (simp add: ulp_exp_def)
  have "\<exists>M. a = real_of_int M * 2 powi ?k"
  proof (cases "?e = 53")
    case True
    then have "a = 2 powi 53" using lo a53 by simp
    moreover have "?k = 1" using True k by simp
    ultimately have "a = real_of_int (2 ^ 52) * 2 powi ?k" by simp
    then show ?thesis ..
  next
    case False
    with e53 have nn: "0 \<le> - ?k" using k by simp
    have "real_of_int (\<bar>n\<bar> * 2 ^ nat (- ?k)) * 2 powi ?k = a * (2 powi (- ?k) * 2 powi ?k)"
      using powi_nat [OF nn] by (simp add: a_def)
    also have "\<dots> = a" using powi_mult [of "- ?k" ?k] by simp
    finally have "a = real_of_int (\<bar>n\<bar> * 2 ^ nat (- ?k)) * 2 powi ?k" by simp
    then show ?thesis ..
  qed
  then obtain M where "a = real_of_int M * 2 powi ?k" ..
  then have y: "real_of_int (mantissa a) * 2 powi ?k = a" by (rule mantissa_exact)
  have small: "\<not> 2 ^ 1024 \<le> a" using a53 by simp
  have abs: "\<bar>real_of_int n\<bar> = a" by (simp add: a_def)
  have nz: "a \<noteq> 0" using pos by simp
  show ?thesis
    using False y small nz
    by (cases "0 < n") (simp_all add: round_double_unfold abs, simp_all add: a_def)
qed

subsection \<open>Differences and quotients of doubles\<close>


lemma num_sub_Fin:
  "x \<noteq> 0 \<Longrightarrow> y \<noteq> 0 \<Longrightarrow> num_sub (Fin x) (Fin y) = round_double (x - y)"
  by (simp add: num_sub_def)


lemma double_gap:
  assumes "round_double zb = Fin b" and "0 < b" and "round_double zs = Fin s" and "b < s"
  shows "\<exists>k\<ge>- 1074. 2 powi k \<le> s - b \<and> b \<le> 2 ^ 53 * 2 powi k"
proof -
  from round_double_normal_form [OF assms(1,2)] obtain nb kb where b: "normal_form b nb kb"
    by blast
  have "0 < s" using assms(2,4) by simp
  from round_double_normal_form [OF assms(3) this] obtain ns ks where s: "normal_form s ns ks"
    by blast
  have gap: "2 powi kb \<le> s - b" using b s assms(4) by (rule normal_form_gap)
  have "real_of_int nb \<le> real_of_int (2 ^ 53)" using b unfolding normal_form_def by linarith
  then have "real_of_int nb * 2 powi kb \<le> 2 ^ 53 * 2 powi kb"
    by (simp add: mult_right_mono)
  then have "b \<le> 2 ^ 53 * 2 powi kb" using b by (simp add: normal_form_def)
  moreover have "- 1074 \<le> kb" using b by (simp add: normal_form_def)
  ultimately show ?thesis using gap by blast
qed


lemma difference_not_positive:
  assumes "o' \<le> a" and "0 < a"
  shows "num_le (num_sub (Fin o') (Fin a)) (Fin 0)
     \<and> num_max (Fin 0) (num_sub (Fin o') (Fin a)) = Fin 0"
proof (cases "o' = 0")
  case True
  then show ?thesis using assms(2) by (simp add: num_sub_def num_max_def)
next
  case False
  then have sub: "num_sub (Fin o') (Fin a) = round_double (o' - a)"
    using assms(2) by (simp add: num_sub_Fin)
  have "o' - a \<le> 0" using assms(1) by simp
  from round_double_sign(2) [OF this] show ?thesis
    by (auto simp: sub num_max_def)
qed

lemma difference_positive:
  assumes "a < o'" and "0 < a" and "is_double o'" and "is_double a"
  shows "\<not> num_le (num_sub (Fin o') (Fin a)) (Fin 0)
     \<and> num_max (Fin 0) (num_sub (Fin o') (Fin a)) = round_double (o' - a)"
proof -
  have sub: "num_sub (Fin o') (Fin a) = round_double (o' - a)"
    using assms(1,2) by (simp add: num_sub_Fin)
  from double_gap [of a a o' o'] assms obtain k where k: "- 1074 \<le> k" "2 powi k \<le> o' - a"
    by (auto simp: is_double_def)
  have p: "(0::real) < 2 powi k" by (rule powi_pos)
  from round_double_lower [OF k(2,1)] show ?thesis
  proof
    assume "round_double (o' - a) = PInf"
    then show ?thesis by (simp add: sub num_max_def)
  next
    assume "\<exists>y. round_double (o' - a) = Fin y \<and> 2 powi k \<le> y"
    then obtain y where y: "round_double (o' - a) = Fin y" "2 powi k \<le> y" by blast
    with p have "0 < y" by linarith
    then show ?thesis using y(1) by (simp add: sub num_max_def)
  qed
qed

subsection \<open>Whole quantities\<close>


lemmas rd = round_double_def mantissa_def ulp_exp_def floor_log2_def round_half_even_def
  lit_def Let_def

section \<open>Properties of the pricing calculator\<close>

lemma calculateTicketPrice_Formula:
  "pricing_type t = Some ''Formula'' \<Longrightarrow> lme_price t = Some (Fin P) \<Longrightarrow>
   payable_percent t = Some (Fin f) \<Longrightarrow> P \<noteq> 0 \<Longrightarrow> f \<noteq> 0 \<Longrightarrow>
   calculateTicketPrice t = round_double (P * f)"
  by (simp add: calculateTicketPrice_def)

text \<open>
  C2. In Formula mode the calculator multiplies the reference price by the payable
  percent as stored. A ticket with reference price 2000 and payable percent 57 is
  priced at 114000, which is 57 times the reference price and not 0.57 times it (1140),
  although the template engine reads the same stored 57 as 57 percent. (The template
  engine shows 57 percent for the stored 57 and for the stored 0.57 alike: for the
  decimal 0.57 its product with 100 is 57, and for the double next to 0.57 the product
  is rounded to the integer 57 before it is printed.)
\<close>

theorem calculateTicketPrice_payable_57:
  "calculateTicketPrice (blank_ticket \<lparr> pricing_type := Some ''Formula'',
       lme_price := Some (Fin 2000), payable_percent := Some (Fin 57) \<rparr>) = Fin 114000
   \<and> Fin 114000 \<noteq> Fin (0.57 * 2000)
   \<and> percentValue (Fin 57) = Fin 57 \<and> percentValue (Fin 0.57) = Fin 57
   \<and> num_mul (Fin 2000) (lit 0.57) = Fin 1140
   \<and> shown_percent (Fin 57) = Fin 57 \<and> shown_percent (lit 0.57) = Fin 57
   \<and> shown_percent (Fin 1.5) = Fin 150"
  by (simp add: calculateTicketPrice_def blank_ticket_def percentValue_def shown_percent_def rd)

text \<open>
  C10. Presence is tested by truthiness. An Index ticket whose premium/discount is 0, or
  whose reference price is 0, is priced 0 and not at reference price plus premium; a
  Formula ticket whose payable percent or reference price is 0 is priced 0; and in each
  mode, a required column holding 0 gives the same price as that column holding
  \<open>null\<close>.
\<close>

theorem calculateTicketPrice_zero_is_missing:
  "(pricing_type t = Some ''Index'' \<and>
      (premium_discount t = Some (Fin 0) \<or> lme_price t = Some (Fin 0))
      \<longrightarrow> calculateTicketPrice t = Fin 0)
   \<and> (pricing_type t = Some ''Formula'' \<and>
      (payable_percent t = Some (Fin 0) \<or> lme_price t = Some (Fin 0))
      \<longrightarrow> calculateTicketPrice t = Fin 0)
   \<and> calculateTicketPrice (t\<lparr>lme_price := Some (Fin 0)\<rparr>)
       = calculateTicketPrice (t\<lparr>lme_price := None\<rparr>)
   \<and> calculateTicketPrice (t\<lparr>premium_discount := Some (Fin 0)\<rparr>)
       = calculateTicketPrice (t\<lparr>premium_discount := None\<rparr>)
   \<and> calculateTicketPrice (t\<lparr>payable_percent := Some (Fin 0)\<rparr>)
       = calculateTicketPrice (t\<lparr>payable_percent := None\<rparr>)
   \<and> calculateTicketPrice (t\<lparr>signed_price := Some (Fin 0)\<rparr>)
       = calculateTicketPrice (t\<lparr>signed_price := None\<rparr>)"
  by (auto simp: calculateTicketPrice_def split: option.splits)

theorem calculateTicketPrice_zero_is_missing_witness:
  "calculateTicketPrice (blank_ticket \<lparr> pricing_type := Some ''Index'',
       lme_price := Some (Fin 2000), premium_discount := Some (Fin 0) \<rparr>) = Fin 0
   \<and> calculateTicketPrice (blank_ticket \<lparr> pricing_type := Some ''Formula'',
       lme_price := Some (Fin 0), payable_percent := Some (Fin 0.57) \<rparr>) = Fin 0"
  using calculateTicketPrice_zero_is_missing
    [of "blank_ticket \<lparr> pricing_type := Some ''Index'',
       lme_price := Some (Fin 2000), premium_discount := Some (Fin 0) \<rparr>"]
    calculateTicketPrice_zero_is_missing
    [of "blank_ticket \<lparr> pricing_type := Some ''Formula'',
       lme_price := Some (Fin 0), payable_percent := Some (Fin 0.57) \<rparr>"]
  by simp

section \<open>Properties of the ticket matching optimizer\<close>

subsection \<open>Sorting and the selection loop\<close>

lemma total_quantity_simps [simp]:
  "total_quantity [] = 0"
  "total_quantity (t # ts) = the_Fin (or_zero (quantity t)) + total_quantity ts"
  by (simp_all add: total_quantity_def)

lemma allocated_simps [simp]:
  "allocated [] = 0"
  "allocated ((t, a) # sel) = the_Fin a + allocated sel"
  by (simp_all add: allocated_def)

lemma insort_cmp_total [simp]:
  "total_quantity (insort_cmp cmp x ys) = the_Fin (or_zero (quantity x)) + total_quantity ys"
  by (induction ys) auto

lemma insort_cmp_all [simp]: "list_all P (insort_cmp cmp x ys) = (P x \<and> list_all P ys)"
  by (induction ys) auto

lemma insort_cmp_not_Nil [simp]: "insort_cmp cmp x ys \<noteq> []"
  by (cases ys) auto

lemma js_sort_total [simp]: "total_quantity (js_sort cmp xs) = total_quantity xs"
  by (induction xs) (auto simp: js_sort_def)

lemma js_sort_all [simp]: "list_all P (js_sort cmp xs) = list_all P xs"
  by (induction xs) (auto simp: js_sort_def)

lemma js_sort_Nil [simp]: "(js_sort cmp xs = []) = (xs = [])"
  by (cases xs) (auto simp: js_sort_def)

lemma fetch_tickets_all: "list_all P (tickets db) \<Longrightarrow> list_all P (fetch_tickets db side c)"
  by (simp add: fetch_tickets_def list_all_iff)

lemma greedy_select_stop: "num_le r (Fin 0) \<Longrightarrow> greedy_select r ts = ([], r)"
  by (cases ts) auto

lemma greedy_select_done: "r \<le> 0 \<Longrightarrow> greedy_select (Fin r) ts = ([], Fin r)"
  by (simp add: greedy_select_stop)






lemmas run_simps = handleOptimize_def browser_def parse_decimal_def parse_unsigned_def digit_of_def
  fetch_tickets_def blank_ticket_def js_sort_def by_price_def calculateTicketPrice_def
  num_sub_def num_min_def weighted_sum_def createOrder_def make_order_def priced_def rd





subsection \<open>Insufficient liquidity\<close>




subsection \<open>The order that is created\<close>

lemma num_lt_irrefl [simp]: "\<not> num_lt a a"
  by (cases a) simp_all

lemma num_lt_NaN [simp]: "\<not> num_lt a NaN" "\<not> num_lt NaN a"
  by (cases a; simp)+

lemma num_div_NaN [simp]: "num_div w NaN = NaN"
  by (cases w) simp_all






subsection \<open>Target quantities that are not positive\<close>

text \<open>
  C5 (amended). A run whose commodity or quantity field is empty is rejected with the
  fill-in-the-fields error before any request is sent, and the backend is unchanged. A
  run whose target quantity is a negative number sends the two ticket selects and then
  fails, with the fetch, the no-matching-tickets or the buy-exceeds-sell error; no
  order is inserted and the backend is unchanged.
\<close>

theorem handleOptimize_rejects:
  "(commodityType = [] \<or> quantityText = [] \<longrightarrow>
      handleOptimize e commodityType quantityText db = (Inl FillInFields, [], db))
   \<and> (commodityType \<noteq> [] \<and> quantityText \<noteq> [] \<and> parseFloat e quantityText = Fin Q \<and> Q < 0 \<longrightarrow>
      (\<exists>err. handleOptimize e commodityType quantityText db
               = (Inl err, ticket_requests commodityType, db)
             \<and> (err = FetchFailed \<or> err = NoMatchingTickets \<or> err = BuyExceedsSell)))"
proof -
  have neg: "greedy_select (Fin Q) ts = ([], Fin Q)" if "Q < 0" for ts
    using that by (simp add: greedy_select_done)
  show ?thesis
    by (auto simp: handleOptimize_def ticket_requests_def Let_def neg weighted_sum_def)
qed

theorem handleOptimize_rejects_witness:
  "handleOptimize browser ''Copper'' [] pool_a = (Inl FillInFields, [], pool_a)
   \<and> handleOptimize browser ''Copper'' ''-5'' pool_a
     = (Inl BuyExceedsSell, ticket_requests ''Copper'', pool_a)"
proof -
  have p: "parseFloat browser ''-5'' = Fin (- 5)"
    by (simp add: browser_def parse_decimal_def parse_unsigned_def digit_of_def rd)
  have "handleOptimize browser ''Copper'' ''-5'' pool_a
     = (Inl BuyExceedsSell, ticket_requests ''Copper'', pool_a)"
    by (simp add: run_simps ticket_requests_def pool_a_def sell_a_def buy_a_def)
  then show ?thesis
    using handleOptimize_rejects [of "''Copper''" "[]" browser pool_a 0]
      handleOptimize_rejects [of "''Copper''" "''-5''" browser pool_a "- 5"] p
    by simp
qed

text \<open>
  The claim as stated fails at the targets -5 and 0: with target -5 the tickets are read
  and the run ends with the buy-exceeds-sell error, not an input error; with target 0
  both averages are \<open>0 / 0\<close>, the margin test does not fire and an order is inserted.
\<close>

theorem nonpositive_target_counterexample:
  "handleOptimize browser ''Copper'' ''-5'' pool_a
     = (Inl BuyExceedsSell, ticket_requests ''Copper'', pool_a)
   \<and> (\<exists>od. fst (handleOptimize browser ''Copper'' ''0'' pool_a) = Inr od
          \<and> allocated_quantity_mt od = Fin 0
          \<and> orders (snd (snd (handleOptimize browser ''Copper'' ''0'' pool_a))) = [od])"
  by (simp add: run_simps ticket_requests_def pool_a_def sell_a_def buy_a_def)

subsection \<open>Tickets with zero quantity\<close>

text \<open>
  C8 (amended). A candidate ticket whose quantity is zero (or \<open>null\<close>), reached while
  quantity is still needed, is not skipped: it is selected with allocation 0. With a
  real price it adds nothing to the weighted price sum nor to the allocated quantity,
  but it is listed among the order's buy or sell tickets, and when it comes first on its
  side it supplies the order's metal form and ship-from (buy side) or ship-to (sell
  side).
\<close>

theorem zero_quantity_selected:
  "(0 < r \<and> or_zero (quantity t) = Fin 0 \<longrightarrow>
      greedy_select (Fin r) (t # ts)
        = ((t, Fin 0) # fst (greedy_select (Fin r) ts), snd (greedy_select (Fin r) ts)))
   \<and> (is_Fin (calculateTicketPrice t) \<longrightarrow>
        weighted_sum ((t, Fin 0) # selected) = weighted_sum selected
        \<and> allocated ((t, Fin 0) # selected) = allocated selected)
   \<and> buyer (make_order e c q ((t, Fin 0) # selectedBuys) selectedSells ab as)
        = ticket_id t # buyer (make_order e c q selectedBuys selectedSells ab as)
   \<and> seller (make_order e c q selectedBuys ((t, Fin 0) # selectedSells) ab as)
        = ticket_id t # seller (make_order e c q selectedBuys selectedSells ab as)
   \<and> order_metal_form (make_order e c q ((t, Fin 0) # selectedBuys) selectedSells ab as)
        = metal_form t
   \<and> order_ship_from (make_order e c q ((t, Fin 0) # selectedBuys) selectedSells ab as)
        = ship_from t
   \<and> order_ship_to (make_order e c q selectedBuys ((t, Fin 0) # selectedSells) ab as)
        = ship_to t"
  by (auto simp: num_min_def num_sub_def case_prod_beta weighted_sum_def make_order_def
        is_Fin_def)

theorem zero_quantity_selected_witness:
  "greedy_select (Fin 30) [empty_buy, buy_a] = ([(empty_buy, Fin 0), (buy_a, Fin 30)], Fin 0)
   \<and> weighted_sum [(empty_buy, Fin 0), (buy_a, Fin 30)] = weighted_sum [(buy_a, Fin 30)]"
proof -
  have a: "or_zero (quantity empty_buy) = Fin 0" "is_Fin (calculateTicketPrice empty_buy)"
    by (simp_all add: empty_buy_def blank_ticket_def calculateTicketPrice_def)
  have b: "greedy_select (Fin 30) [buy_a] = ([(buy_a, Fin 30)], Fin 0)"
    by (simp add: buy_a_def blank_ticket_def num_min_def num_sub_def)
  show ?thesis
    using zero_quantity_selected [of 30 empty_buy "[buy_a]" "[(buy_a, Fin 30)]"] a b
    by simp
qed

text \<open>
  The claim as stated fails on a buy ticket with quantity 0 and the lowest price: it is
  the first buy ticket of the order and gives the order its metal form.
\<close>

theorem zero_quantity_counterexample:
  "quantity empty_buy = Some (Fin 0)
   \<and> (\<exists>od. fst (handleOptimize browser ''Copper'' ''30'' pool_b) = Inr od
          \<and> buyer od = [7, 3] \<and> seller od = [1]
          \<and> order_metal_form od = Some ''Ingot'')"
  by (simp add: run_simps pool_b_def sell_a_def buy_a_def empty_buy_def)

section \<open>Properties of the allocation engine\<close>

subsection \<open>The loop over the selected hedges\<close>




lemma link_hedges_ids:
  "map hedge_id (hedge_executions (snd (link_hedges e refused d fx ids st)))
   = map hedge_id (hedge_executions st)"
proof (induction ids arbitrary: st)
  case Nil
  then show ?case by simp
next
  case (Cons hedgeId rest)
  have upd: "hedge_id (update_execution e d hedge a r) = hedge_id r" for hedge a r
    by (simp add: update_execution_def Let_def)
  have m: "map hedge_id (map (\<lambda>r. if hedge_id r = hedgeId
                      then update_execution e d hedge a r else r) rs) = map hedge_id rs"
    for hedge a rs
    by (induction rs) (simp_all add: upd)
  show ?case
    by (simp add: Let_def Cons.IH m upd split: option.splits sum.splits)
qed


lemma update_execution_hedge_id [simp]:
  "hedge_id (update_execution e d hedge a r) = hedge_id r"
  by (simp add: update_execution_def Let_def)

lemma update_execution_idem:
  "update_execution e d hedge a (update_execution e d hedge a r) = update_execution e d hedge a r"
  by (simp add: update_execution_def Let_def)

lemma rows_after_update:
  assumes "r \<in> set (map (\<lambda>r. if hedge_id r = h then update_execution e d hedge a r else r) rs)"
    and "hedge_id r = h"
  shows "update_execution e d hedge a r = r"
proof -
  from assms(1) obtain r0 where
    r0: "r = (if hedge_id r0 = h then update_execution e d hedge a r0 else r0)"
    by (auto simp only: set_map image_iff)
  show ?thesis
  proof (cases "hedge_id r0 = h")
    case True
    with r0 have "r = update_execution e d hedge a r0" by simp
    then show ?thesis using update_execution_idem [of e d hedge a r0] by simp
  next
    case False
    with r0 have "r = r0" by simp
    with False assms(2) show ?thesis by blast
  qed
qed


lemma link_hedges_rows:
  assumes "\<forall>r\<in>set (hedge_executions st). hedge_id r = h \<longrightarrow> P r"
    and "\<And>hedge r. find_hedge d h = Some hedge \<Longrightarrow> hedge_id r = h \<Longrightarrow>
           P (update_execution e d hedge (allocQty_of e d h) r)"
  shows "\<forall>r\<in>set (hedge_executions (snd (link_hedges e refused d fx ids st))).
           hedge_id r = h \<longrightarrow> P r"
  using assms(1)
proof (induction ids arbitrary: st)
  case Nil
  then show ?case by simp
next
  case (Cons x rest)
  show ?case
  proof (cases "num_le (allocQty_of e d x) (Fin 0)")
    case True
    then show ?thesis using Cons.IH [OF Cons.prems] by simp
  next
    case nle: False
    show ?thesis
    proof (cases "find_hedge d x")
      case None
      then show ?thesis using nle Cons.IH [OF Cons.prems] by simp
    next
      case (Some hx)
      show ?thesis
      proof (cases "link_id_of d")
        case (Inl err)
        then show ?thesis using nle Some Cons.prems by simp
      next
        case (Inr key)
        let ?st1 = "st\<lparr>hedge_links := hedge_links st
            @ [new_link e d fx x hx (allocQty_of e d x) key]\<rparr>"
        let ?st2 = "?st1\<lparr>hedge_executions :=
            map (\<lambda>r. if hedge_id r = x
                      then update_execution e d hx (allocQty_of e d x) r else r)
              (hedge_executions ?st1)\<rparr>"
        have P2: "\<forall>r\<in>set (hedge_executions ?st2). hedge_id r = h \<longrightarrow> P r"
          using Cons.prems assms(2) Some by auto
        show ?thesis
          using nle Some Inr Cons.prems Cons.IH [OF P2] by (simp add: Let_def)
      qed
    qed
  qed
qed

lemma link_hedges_updated:
  assumes "fst (link_hedges e refused d fx ids st) = None"
    and "hedgeId \<in> set ids"
    and "\<not> num_le (allocQty_of e d hedgeId) (Fin 0)"
    and "find_hedge d hedgeId = Some hedge"
  shows "\<forall>r\<in>set (hedge_executions (snd (link_hedges e refused d fx ids st))).
           hedge_id r = hedgeId \<longrightarrow>
           update_execution e d hedge (allocQty_of e d hedgeId) r = r"
  using assms(1,2)
proof (induction ids arbitrary: st)
  case Nil
  then show ?case by simp
next
  case (Cons x rest)
  have keep: "\<forall>r\<in>set (hedge_executions (snd (link_hedges e refused d fx rest st0))).
           hedge_id r = hedgeId \<longrightarrow>
           update_execution e d hedge (allocQty_of e d hedgeId) r = r"
    if "\<forall>r\<in>set (hedge_executions st0). hedge_id r = hedgeId \<longrightarrow>
           update_execution e d hedge (allocQty_of e d hedgeId) r = r" for st0
    using that assms(4)
    by (intro link_hedges_rows) (auto simp: update_execution_idem)
  show ?case
  proof (cases "x = hedgeId")
    case True
    from Cons.prems(1) assms(3,4) True obtain key where key: "link_id_of d = Inr key"
      by (cases "link_id_of d") (auto simp: Let_def)
    let ?st1 = "st\<lparr>hedge_links := hedge_links st
            @ [new_link e d fx hedgeId hedge (allocQty_of e d hedgeId) key]\<rparr>"
    let ?st2 = "?st1\<lparr>hedge_executions :=
            map (\<lambda>r. if hedge_id r = hedgeId
                      then update_execution e d hedge (allocQty_of e d hedgeId) r else r)
              (hedge_executions ?st1)\<rparr>"
    have run: "link_hedges e refused d fx (x # rest) st = link_hedges e refused d fx rest ?st2"
      using Cons.prems(1) assms(3,4) True key by (auto simp: Let_def split: if_splits)
    have "\<forall>r\<in>set (hedge_executions ?st2). hedge_id r = hedgeId \<longrightarrow>
           update_execution e d hedge (allocQty_of e d hedgeId) r = r"
    proof (intro ballI impI)
      fix r
      assume "r \<in> set (hedge_executions ?st2)" and "hedge_id r = hedgeId"
      then show "update_execution e d hedge (allocQty_of e d hedgeId) r = r"
        using rows_after_update
          [of r hedgeId e d hedge "allocQty_of e d hedgeId" "hedge_executions st"]
        by simp
    qed
    from keep [OF this] show ?thesis using run by simp
  next
    case False
    then have mem: "hedgeId \<in> set rest" using Cons.prems(2) by simp
    show ?thesis
    proof (cases "num_le (allocQty_of e d x) (Fin 0)")
      case True
      then show ?thesis using Cons.IH [of st] Cons.prems mem by simp
    next
      case nle: False
      show ?thesis
      proof (cases "find_hedge d x")
        case None
        then show ?thesis using nle Cons.IH [of st] Cons.prems mem by simp
      next
        case (Some hx)
        from Cons.prems(1) nle Some obtain key where key: "link_id_of d = Inr key"
          by (cases "link_id_of d") (auto simp: Let_def)
        let ?st1 = "st\<lparr>hedge_links := hedge_links st
            @ [new_link e d fx x hx (allocQty_of e d x) key]\<rparr>"
        let ?st2 = "?st1\<lparr>hedge_executions :=
            map (\<lambda>r. if hedge_id r = x
                      then update_execution e d hx (allocQty_of e d x) r else r)
              (hedge_executions ?st1)\<rparr>"
        have run: "link_hedges e refused d fx (x # rest) st = link_hedges e refused d fx rest ?st2"
          using Cons.prems(1) nle Some key by (auto simp: Let_def split: if_splits)
        from Cons.IH [of ?st2] Cons.prems(1) mem run show ?thesis by simp
      qed
    qed
  qed
qed



lemmas fix_simps = handleSubmit_def fixingMutation_def hasValidAllocation_def
  exceedsPhysical_def hasAllocationErrors_def allocationErrors_def totalAllocation_def
  availableUnfixedQty_def alreadyFixedQty_def is_selected_def parse_or_zero_def
  selectedIds_def allocQty_of_def find_hedge_def hedgesWithOpenQty_def openQty_def
  new_fixing_def new_link_def link_id_of_def update_execution_def num_sub_def num_max_def
  browser_def parse_decimal_def parse_unsigned_def digit_of_def
  dialog_a_def dialog_b_def dialog_c_def dialog_d_def dialog_r_def
  store_a_def store_c_def store_r_def hedge_a_def hedge_b_def hedge_c_def rd

subsection \<open>No rollback\<close>




subsection \<open>The update of a hedge execution\<close>

lemma update_execution_fields:
  assumes "(case open_quantity_mt hedge of Some q \<Rightarrow> q | None \<Rightarrow> quantity_mt hedge) = Fin o'"
    and "r = update_execution e d hedge (Fin a) r"
  shows "open_quantity_mt r = Some (num_max (Fin 0) (num_sub (Fin o') (Fin a)))
     \<and> hedge_status r = Some (if num_le (num_sub (Fin o') (Fin a)) (Fin 0)
                               then ''CLOSED'' else ''PARTIALLY_CLOSED'')
     \<and> closed_price r = (if num_le (num_sub (Fin o') (Fin a)) (Fin 0)
                          then Some (parseFloat e (fixingPrice d)) else None)
     \<and> closed_at r = (if num_le (num_sub (Fin o') (Fin a)) (Fin 0) then Some (now e) else None)"
proof -
  let ?u = "update_execution e d hedge (Fin a) r"
  have "open_quantity_mt ?u = Some (num_max (Fin 0) (num_sub (Fin o') (Fin a)))
     \<and> hedge_status ?u = Some (if num_le (num_sub (Fin o') (Fin a)) (Fin 0)
                               then ''CLOSED'' else ''PARTIALLY_CLOSED'')
     \<and> closed_price ?u = (if num_le (num_sub (Fin o') (Fin a)) (Fin 0)
                          then Some (parseFloat e (fixingPrice d)) else None)
     \<and> closed_at ?u = (if num_le (num_sub (Fin o') (Fin a)) (Fin 0) then Some (now e) else None)"
    using assms(1) by (simp add: update_execution_def Let_def openQty_def)
  with assms(2) show ?thesis by metis
qed

text \<open>
  C6 (amended). Let a selected hedge execution have the allocation \<open>a > 0\<close>, and let
  \<open>o'\<close> be the open quantity that the dialog holds for it: the open quantity of the
  row that the dialog loaded, or the trade quantity of that row where no open quantity
  was stored. A commit changes no execution id. After it, every row of that execution
  is either as it was before (the commit failed before its update) or updated: its
  open quantity is \<open>max 0 (o' - a)\<close>, its status is CLOSED if \<open>o' - a \<le> 0\<close> and
  PARTIALLY_CLOSED otherwise, and its closing price (the fixing price) and closing time
  are set if \<open>o' - a \<le> 0\<close> and \<open>null\<close> otherwise; after a commit that succeeds
  every row of that execution is updated so. Here \<open>o' - a\<close> is the difference as the
  source computes it; it is at most 0, and the stored quantity is 0, when \<open>o' \<le> a\<close>,
  and for doubles \<open>a < o'\<close> it is above 0 and the stored quantity is the double
  nearest to the exact difference.
\<close>

theorem fixingMutation_updates_execution:
  fixes e :: env and refused :: "db_write \<Rightarrow> bool" and d :: dialog and st :: hedge_store
    and a o' :: real
  assumes "hedgeId \<in> set (selectedIds d)"
    and "allocQty_of e d hedgeId = Fin a" and "0 < a"
    and "find_hedge d hedgeId = Some hedge"
    and "(case open_quantity_mt hedge of Some q \<Rightarrow> q | None \<Rightarrow> quantity_mt hedge) = Fin o'"
  defines "st' \<equiv> snd (fixingMutation e refused d st)"
  defines "newOpenQty \<equiv> num_sub (Fin o') (Fin a)"
  defines "as_claimed \<equiv> \<lambda>r.
       open_quantity_mt r = Some (num_max (Fin 0) newOpenQty)
     \<and> hedge_status r = Some (if num_le newOpenQty (Fin 0) then ''CLOSED'' else ''PARTIALLY_CLOSED'')
     \<and> closed_price r
         = (if num_le newOpenQty (Fin 0) then Some (parseFloat e (fixingPrice d)) else None)
     \<and> closed_at r = (if num_le newOpenQty (Fin 0) then Some (now e) else None)"
  shows "map hedge_id (hedge_executions st') = map hedge_id (hedge_executions st)
     \<and> (\<forall>r\<in>set (hedge_executions st'). hedge_id r = hedgeId \<longrightarrow>
           r \<in> set (hedge_executions st) \<or> as_claimed r)
     \<and> ((\<exists>fixingData. fst (fixingMutation e refused d st) = Inr fixingData) \<longrightarrow>
           (\<forall>r\<in>set (hedge_executions st'). hedge_id r = hedgeId \<longrightarrow> as_claimed r))
     \<and> (o' \<le> a \<longrightarrow> num_le newOpenQty (Fin 0) \<and> num_max (Fin 0) newOpenQty = Fin 0)
     \<and> (a < o' \<and> is_double o' \<and> is_double a \<longrightarrow>
           \<not> num_le newOpenQty (Fin 0) \<and> num_max (Fin 0) newOpenQty = round_double (o' - a))"
proof -
  have arith: "(o' \<le> a \<longrightarrow> num_le newOpenQty (Fin 0) \<and> num_max (Fin 0) newOpenQty = Fin 0)
     \<and> (a < o' \<and> is_double o' \<and> is_double a \<longrightarrow>
           \<not> num_le newOpenQty (Fin 0) \<and> num_max (Fin 0) newOpenQty = round_double (o' - a))"
    using difference_not_positive [of o' a] difference_positive [of a o'] assms(3)
    by (simp add: newOpenQty_def)
  have rows: "map hedge_id (hedge_executions st') = map hedge_id (hedge_executions st)
     \<and> (\<forall>r\<in>set (hedge_executions st'). hedge_id r = hedgeId \<longrightarrow>
           r \<in> set (hedge_executions st) \<or> as_claimed r)
     \<and> ((\<exists>fixingData. fst (fixingMutation e refused d st) = Inr fixingData) \<longrightarrow>
           (\<forall>r\<in>set (hedge_executions st'). hedge_id r = hedgeId \<longrightarrow> as_claimed r))"
  proof (cases "refused WriteFixing")
    case True
    then have "fixingMutation e refused d st = (Inl FixingError, st)"
      by (simp add: fixingMutation_def)
    then show ?thesis by (simp add: st'_def)
  next
    case False
    let ?fx = "new_fixing e d st"
    let ?st1 = "st\<lparr>pricing_fixings := pricing_fixings st @ [?fx]\<rparr>"
    let ?run = "link_hedges e refused d ?fx (selectedIds d) ?st1"
    have out: "fixingMutation e refused d st
        = (case fst ?run of Some err \<Rightarrow> Inl err | None \<Rightarrow> Inr ?fx, snd ?run)"
      using False
      by (simp add: fixingMutation_def Let_def case_prod_beta split: option.splits)
    have st': "st' = snd ?run" by (simp add: st'_def out)
    have pos: "\<not> num_le (allocQty_of e d hedgeId) (Fin 0)"
      using assms(2,3) by simp
    have claimed: "as_claimed r" if "update_execution e d hedge (Fin a) r = r" for r
      using update_execution_fields [OF assms(5), of r e d a] that
      by (simp add: as_claimed_def newOpenQty_def)
    have ids: "map hedge_id (hedge_executions st') = map hedge_id (hedge_executions st)"
      by (simp add: st' link_hedges_ids)
    have "\<forall>r\<in>set (hedge_executions (snd ?run)). hedge_id r = hedgeId \<longrightarrow>
        r \<in> set (hedge_executions st) \<or> update_execution e d hedge (Fin a) r = r"
    proof (rule link_hedges_rows)
      show "\<forall>r\<in>set (hedge_executions ?st1). hedge_id r = hedgeId \<longrightarrow>
        r \<in> set (hedge_executions st) \<or> update_execution e d hedge (Fin a) r = r"
        by simp
    next
      fix hedge' r :: hedge_execution
      assume "find_hedge d hedgeId = Some hedge'" and "hedge_id r = hedgeId"
      then have "hedge' = hedge" using assms(4) by simp
      then show "update_execution e d hedge' (allocQty_of e d hedgeId) r \<in> set (hedge_executions st)
          \<or> update_execution e d hedge (Fin a)
               (update_execution e d hedge' (allocQty_of e d hedgeId) r)
             = update_execution e d hedge' (allocQty_of e d hedgeId) r"
        using assms(2) by (simp add: update_execution_idem)
    qed
    then have any: "\<forall>r\<in>set (hedge_executions st'). hedge_id r = hedgeId \<longrightarrow>
             r \<in> set (hedge_executions st) \<or> as_claimed r"
      using claimed by (auto simp: st')
    have ok: "\<forall>r\<in>set (hedge_executions st'). hedge_id r = hedgeId \<longrightarrow> as_claimed r"
      if "fst (fixingMutation e refused d st) = Inr fixingData" for fixingData
    proof -
      from that have "fst ?run = None" by (simp add: out split: option.splits)
      from link_hedges_updated [OF this assms(1) pos assms(4)]
      show ?thesis using claimed assms(2) by (auto simp: st')
    qed
    from ids any ok show ?thesis by blast
  qed
  from rows arith show ?thesis by blast
qed

theorem fixingMutation_updates_execution_witness:
  "(\<exists>r. find (\<lambda>r. hedge_id r = ''h3'')
          (hedge_executions (snd (fixingMutation browser (\<lambda>w. False) dialog_c store_c)))
        = Some r
      \<and> open_quantity_mt r = Some (Fin 15) \<and> hedge_status r = Some ''PARTIALLY_CLOSED''
      \<and> closed_price r = None \<and> closed_at r = None)
   \<and> (\<exists>r. find (\<lambda>r. hedge_id r = ''h3'')
          (hedge_executions (snd (fixingMutation browser (\<lambda>w. False) dialog_d store_c)))
        = Some r
      \<and> open_quantity_mt r = Some (Fin 0) \<and> hedge_status r = Some ''CLOSED''
      \<and> closed_price r = Some (Fin 9500) \<and> closed_at r = Some (now browser))"
proof -
  have c: "''h3'' \<in> set (selectedIds dialog_c)" "allocQty_of browser dialog_c ''h3'' = Fin 10"
    "(0::real) < 10" "find_hedge dialog_c ''h3'' = Some hedge_c"
    "(case open_quantity_mt hedge_c of Some q \<Rightarrow> q | None \<Rightarrow> quantity_mt hedge_c) = Fin 25"
    by (simp_all add: fix_simps)
  have d: "''h3'' \<in> set (selectedIds dialog_d)" "allocQty_of browser dialog_d ''h3'' = Fin 25"
    "(0::real) < 25" "find_hedge dialog_d ''h3'' = Some hedge_c"
    "(case open_quantity_mt hedge_c of Some q \<Rightarrow> q | None \<Rightarrow> quantity_mt hedge_c) = Fin 25"
    by (simp_all add: fix_simps)
  have v: "num_sub (Fin 25) (Fin 10) = Fin 15" "num_sub (Fin 25) (Fin 25) = Fin 0"
    "num_max (Fin 0) (Fin 15) = Fin 15" "num_max (Fin 0) (Fin 0) = Fin 0"
    "parseFloat browser (fixingPrice dialog_d) = Fin 9500"
    by (simp_all add: fix_simps)
  have okc: "\<exists>fixingData. fst (fixingMutation browser (\<lambda>w. False) dialog_c store_c) = Inr fixingData"
    and okd: "\<exists>fixingData. fst (fixingMutation browser (\<lambda>w. False) dialog_d store_c) = Inr fixingData"
    by (simp_all add: fix_simps)
  have "\<exists>r. find (\<lambda>r. hedge_id r = ''h3'')
          (hedge_executions (snd (fixingMutation browser (\<lambda>w. False) dialog_c store_c)))
        = Some r"
    by (simp add: fix_simps)
  then obtain r where r: "find (\<lambda>r. hedge_id r = ''h3'')
          (hedge_executions (snd (fixingMutation browser (\<lambda>w. False) dialog_c store_c)))
        = Some r" by blast
  then have "r \<in> set (hedge_executions (snd (fixingMutation browser (\<lambda>w. False) dialog_c store_c)))"
    and "hedge_id r = ''h3''"
    by (auto simp: find_Some_iff)
  with fixingMutation_updates_execution [OF c, of "\<lambda>w. False" store_c] okc v
  have rc: "open_quantity_mt r = Some (Fin 15) \<and> hedge_status r = Some ''PARTIALLY_CLOSED''
      \<and> closed_price r = None \<and> closed_at r = None"
    by auto
  have "\<exists>r. find (\<lambda>r. hedge_id r = ''h3'')
          (hedge_executions (snd (fixingMutation browser (\<lambda>w. False) dialog_d store_c)))
        = Some r"
    by (simp add: fix_simps)
  then obtain r' where r': "find (\<lambda>r. hedge_id r = ''h3'')
          (hedge_executions (snd (fixingMutation browser (\<lambda>w. False) dialog_d store_c)))
        = Some r'" by blast
  then have "r' \<in> set (hedge_executions (snd (fixingMutation browser (\<lambda>w. False) dialog_d store_c)))"
    and "hedge_id r' = ''h3''"
    by (auto simp: find_Some_iff)
  with fixingMutation_updates_execution [OF d, of "\<lambda>w. False" store_c] okd v
  have rd': "open_quantity_mt r' = Some (Fin 0) \<and> hedge_status r' = Some ''CLOSED''
      \<and> closed_price r' = Some (Fin 9500) \<and> closed_at r' = Some (now browser)"
    by auto
  from r rc r' rd' show ?thesis by blast
qed

text \<open>
  The claim as stated fails when a commit is repeated from the same dialog. A commit
  that allocates 15 MT to each of two executions of 40 MT, and whose second link is
  refused, leaves the first execution with 25 MT open. The dialog still holds 40 MT for
  it; a second commit from that dialog succeeds and stores \<open>40 - 15 = 25\<close> MT for the
  first execution, whose open quantity before that commit was 25 MT, and not
  \<open>max 0 (25 - 15) = 10\<close> MT.
\<close>

theorem repeated_commit_counterexample:
  "fst (fixingMutation browser (\<lambda>w. w = WriteLink ''h2'') dialog_r store_a)
     = Inl (LinkError ''h2'')
   \<and> map hedge_id (hedge_executions store_r) = [''h1'', ''h2'']
   \<and> map open_quantity_mt (hedge_executions store_r) = [Some (Fin 25), Some (Fin 40)]
   \<and> allocQty_of browser dialog_r ''h1'' = Fin 15
   \<and> (\<exists>fixingData. fst (fixingMutation browser (\<lambda>w. False) dialog_r store_r) = Inr fixingData)
   \<and> map open_quantity_mt
        (hedge_executions (snd (fixingMutation browser (\<lambda>w. False) dialog_r store_r)))
      = [Some (Fin 25), Some (Fin 25)]
   \<and> Fin 25 \<noteq> Fin (max 0 (25 - 15))"
  by (simp add: fix_simps)

subsection \<open>Validation\<close>

lemma selectedIds_selected: "hedgeId \<in> set (selectedIds d) \<Longrightarrow> is_selected d hedgeId"
  by (simp add: selectedIds_def)

lemma allocation_error_found:
  assumes "hedgeId \<in> set (selectedIds d)" and "find_hedge d hedgeId = Some hedge"
    and "num_lt (Fin 0) (allocQty_of e d hedgeId)"
    and "num_lt (openQty hedge) (allocQty_of e d hedgeId)"
  shows "hasAllocationErrors e d"
proof -
  from assms(3) obtain val where val: "map_of (allocations d) hedgeId = Some val"
    by (cases "map_of (allocations d) hedgeId") (auto simp: allocQty_of_def)
  then have mem: "(hedgeId, val) \<in> set (allocations d)" by (rule map_of_SomeD)
  have "allocQty_of e d hedgeId = parse_or_zero e val"
    using val by (simp add: allocQty_of_def)
  with assms(1,2,4) mem have "hedgeId \<in> set (allocationErrors e d)"
    by (force simp: allocationErrors_def selectedIds_selected)
  then show ?thesis by (auto simp: hasAllocationErrors_def)
qed

text \<open>
  C4 (amended). \<open>handleSubmit\<close> aborts with a validation error, leaving the store as
  it is, whenever (a) the total of the requested allocations is not above 0, or (b) that
  total is above the available unfixed quantity, or (c) a selected execution has a
  requested allocation that is above 0 and above the open quantity that the dialog
  holds for it, or (d) the fixing price is missing or at most 0. The total is the sum
  as the source computes it, each addition rounded to a double. The tests read the
  dialog only: the open quantities are those of the rows that the dialog loaded, and a
  validation error is the same whatever the store holds. When its four tests pass
  \<open>handleSubmit\<close> runs the commit.
\<close>

theorem handleSubmit_validation:
  "(\<not> num_lt (Fin 0) (totalAllocation e d) \<longrightarrow>
      handleSubmit e refused d st = (Inl NoAllocation, st))
   \<and> (num_lt (availableUnfixedQty d) (totalAllocation e d) \<longrightarrow>
      (\<exists>err. handleSubmit e refused d st = (Inl err, st) \<and> (\<forall>m. err \<noteq> MutationFailed m)))
   \<and> ((\<exists>hedgeId\<in>set (selectedIds d). \<exists>hedge. find_hedge d hedgeId = Some hedge
          \<and> num_lt (Fin 0) (allocQty_of e d hedgeId)
          \<and> num_lt (case open_quantity_mt hedge of Some q \<Rightarrow> q | None \<Rightarrow> quantity_mt hedge)
               (allocQty_of e d hedgeId)) \<longrightarrow>
      (\<exists>err. handleSubmit e refused d st = (Inl err, st) \<and> (\<forall>m. err \<noteq> MutationFailed m)))
   \<and> (fixingPrice d = [] \<or> num_le (parseFloat e (fixingPrice d)) (Fin 0) \<longrightarrow>
      (\<exists>err. handleSubmit e refused d st = (Inl err, st) \<and> (\<forall>m. err \<noteq> MutationFailed m)))
   \<and> (hasValidAllocation e d \<and> \<not> exceedsPhysical e d \<and> \<not> hasAllocationErrors e d
        \<and> fixingPrice d \<noteq> [] \<and> \<not> num_le (parseFloat e (fixingPrice d)) (Fin 0) \<longrightarrow>
      handleSubmit e refused d st
        = (case fixingMutation e refused d st of
             (Inl err, st') \<Rightarrow> (Inl (MutationFailed err), st')
           | (Inr fixingData, st') \<Rightarrow> (Inr fixingData, st')))
   \<and> (\<forall>err st2. handleSubmit e refused d st = (Inl err, st) \<and> (\<forall>m. err \<noteq> MutationFailed m) \<longrightarrow>
        handleSubmit e refused d st2 = (Inl err, st2))"
proof -
  have c: "hasAllocationErrors e d"
    if "\<exists>hedgeId\<in>set (selectedIds d). \<exists>hedge. find_hedge d hedgeId = Some hedge
          \<and> num_lt (Fin 0) (allocQty_of e d hedgeId)
          \<and> num_lt (case open_quantity_mt hedge of Some q \<Rightarrow> q | None \<Rightarrow> quantity_mt hedge)
               (allocQty_of e d hedgeId)"
    using that allocation_error_found [of _ d _ e] by (auto simp: openQty_def)
  have abort: "\<exists>err. handleSubmit e refused d st = (Inl err, st) \<and> (\<forall>m. err \<noteq> MutationFailed m)"
    if "\<not> hasValidAllocation e d \<or> exceedsPhysical e d \<or> hasAllocationErrors e d
        \<or> fixingPrice d = [] \<or> num_le (parseFloat e (fixingPrice d)) (Fin 0)"
    using that by (auto simp: handleSubmit_def)
  have a: "handleSubmit e refused d st = (Inl NoAllocation, st)"
    if "\<not> num_lt (Fin 0) (totalAllocation e d)"
    using that by (simp add: handleSubmit_def hasValidAllocation_def)
  have b: "exceedsPhysical e d" if "num_lt (availableUnfixedQty d) (totalAllocation e d)"
    using that by (simp add: exceedsPhysical_def)
  have go: "handleSubmit e refused d st
        = (case fixingMutation e refused d st of
             (Inl err, st') \<Rightarrow> (Inl (MutationFailed err), st')
           | (Inr fixingData, st') \<Rightarrow> (Inr fixingData, st'))"
    if "hasValidAllocation e d \<and> \<not> exceedsPhysical e d \<and> \<not> hasAllocationErrors e d
        \<and> fixingPrice d \<noteq> [] \<and> \<not> num_le (parseFloat e (fixingPrice d)) (Fin 0)"
    using that by (simp add: handleSubmit_def)
  have same: "handleSubmit e refused d st2 = (Inl err, st2)"
    if "handleSubmit e refused d st = (Inl err, st)" "\<forall>m. err \<noteq> MutationFailed m" for err st2
    using that by (auto simp: handleSubmit_def split: if_splits prod.splits sum.splits)
  from a b c abort go same show ?thesis by blast
qed

theorem handleSubmit_validation_witness:
  "handleSubmit browser (\<lambda>w. False) (dialog_a\<lparr>allocations := []\<rparr>) store_a
     = (Inl NoAllocation, store_a)
   \<and> handleSubmit browser (\<lambda>w. False)
        (dialog_a\<lparr>allocations := [(''h1'', ''40''), (''h2'', ''40'')]\<rparr>) store_a
     = (Inl ExceedsAvailable, store_a)
   \<and> handleSubmit browser (\<lambda>w. False) (dialog_a\<lparr>allocations := [(''h1'', ''45'')]\<rparr>) store_a
     = (Inl ExceedsOpenQuantity, store_a)
   \<and> handleSubmit browser (\<lambda>w. False) (dialog_a\<lparr>fixingPrice := ''0''\<rparr>) store_a
     = (Inl InvalidPrice, store_a)
   \<and> (\<exists>fixingData. fst (handleSubmit browser (\<lambda>w. False) dialog_a store_a) = Inr fixingData)
   \<and> handleSubmit browser (\<lambda>w. False)
        (dialog_a\<lparr>physicalQuantity := lit 0.3, existingFixings := Some [],
           allocations := [(''h1'', ''0.1''), (''h2'', ''0.2'')]\<rparr>) store_a
     = (Inl ExceedsAvailable, store_a)
   \<and> (\<exists>fixingData. fst (handleSubmit browser (\<lambda>w. False)
          (dialog_a\<lparr>selectedHedges := [(''h1'', True), (''h2'', False)],
             allocations := [(''h1'', ''40''), (''h2'', ''40'')]\<rparr>) store_a) = Inr fixingData)"
proof -
  have "handleSubmit browser (\<lambda>w. False)
        (dialog_a\<lparr>allocations := [(''h1'', ''40''), (''h2'', ''40'')]\<rparr>) store_a
     = (Inl ExceedsAvailable, store_a)"
    "handleSubmit browser (\<lambda>w. False) (dialog_a\<lparr>allocations := [(''h1'', ''45'')]\<rparr>) store_a
     = (Inl ExceedsOpenQuantity, store_a)"
    "handleSubmit browser (\<lambda>w. False) (dialog_a\<lparr>fixingPrice := ''0''\<rparr>) store_a
     = (Inl InvalidPrice, store_a)"
    "\<exists>fixingData. fst (handleSubmit browser (\<lambda>w. False) dialog_a store_a) = Inr fixingData"
    "\<not> num_lt (Fin 0) (totalAllocation browser (dialog_a\<lparr>allocations := []\<rparr>))"
    "handleSubmit browser (\<lambda>w. False)
        (dialog_a\<lparr>physicalQuantity := lit 0.3, existingFixings := Some [],
           allocations := [(''h1'', ''0.1''), (''h2'', ''0.2'')]\<rparr>) store_a
     = (Inl ExceedsAvailable, store_a)"
    "\<exists>fixingData. fst (handleSubmit browser (\<lambda>w. False)
          (dialog_a\<lparr>selectedHedges := [(''h1'', True), (''h2'', False)],
             allocations := [(''h1'', ''40''), (''h2'', ''40'')]\<rparr>) store_a) = Inr fixingData"
    by (simp_all add: fix_simps)
  then show ?thesis
    using handleSubmit_validation
      [of browser "dialog_a\<lparr>allocations := []\<rparr>" "\<lambda>w. False" store_a]
    by simp
qed

text \<open>
  The claim as stated fails on a selected execution whose requested allocation is 0:
  the operation does not abort, the fixing and the link of the other execution are
  written, and the execution with allocation 0 is skipped. It fails also on an
  allocation above the open quantity that the store holds: after the commit whose
  second link was refused, execution \<open>h1\<close> has 25 MT open, and the dialog, which
  still holds 40 MT for it, lets an allocation of 30 MT through.
\<close>

theorem zero_allocation_counterexample:
  "''h2'' \<in> set (selectedIds dialog_b)
   \<and> allocQty_of browser dialog_b ''h2'' = Fin 0
   \<and> (\<exists>fixingData. fst (handleSubmit browser (\<lambda>w. False) dialog_b store_a) = Inr fixingData)
   \<and> length (pricing_fixings (snd (handleSubmit browser (\<lambda>w. False) dialog_b store_a))) = 1
   \<and> map hedge_execution_id
        (hedge_links (snd (handleSubmit browser (\<lambda>w. False) dialog_b store_a))) = [''h1'']
   \<and> map open_quantity_mt (hedge_executions store_r) = [Some (Fin 25), Some (Fin 40)]
   \<and> allocQty_of browser (dialog_r\<lparr>allocations := [(''h1'', ''30'')]\<rparr>) ''h1'' = Fin 30
   \<and> (\<exists>fixingData. fst (handleSubmit browser (\<lambda>w. False)
                            (dialog_r\<lparr>allocations := [(''h1'', ''30'')]\<rparr>) store_r)
                      = Inr fixingData)"
  by (simp add: fix_simps)

section \<open>Properties of the exposure aggregator\<close>

lemma signed_open_openQty:
  "signed_open h = (if direction h = ''Buy'' then openQty h else num_neg (openQty h))"
  by (simp add: signed_open_def openQty_def)

lemma net_as_sum:
  "foldl (\<lambda>sum h. num_add sum (if direction h = ''Buy'' then openQty h else num_neg (openQty h)))
     acc hs
   = foldl num_add acc (map signed_open hs)"
  by (induction hs arbitrary: acc) (simp_all add: signed_open_openQty)

lemma signed_open_ignores_quantity:
  "open_quantity_mt h \<noteq> None \<Longrightarrow> signed_open (h\<lparr>quantity_mt := q\<rparr>) = signed_open h"
  by (auto simp: signed_open_def)

lemma map_signed_open_ignores_quantity:
  "list_all (\<lambda>h. open_quantity_mt h \<noteq> None) hs \<Longrightarrow>
   map signed_open (map (\<lambda>h. h\<lparr>quantity_mt := q h\<rparr>) hs) = map signed_open hs"
  by (induction hs) (simp_all add: signed_open_ignores_quantity)

lemma lit_cent:
  "lit 0.01 = Fin (5764607523034235 / 576460752303423488)"
  "lit (1 / 100) = Fin (5764607523034235 / 576460752303423488)"
  by (simp_all add: rd)

lemma whole_open_Fin:
  "whole_open h \<Longrightarrow> signed_open h = NegZero \<or> (\<exists>n. signed_open h = Fin (real_of_int n))"
proof -
  assume "whole_open h"
  then obtain q where q: "(case open_quantity_mt h of Some q \<Rightarrow> q | None \<Rightarrow> quantity_mt h) = Fin q"
    "is_whole q"
    by (auto simp: whole_open_def split: number.splits)
  then have int: "q = real_of_int \<lfloor>q\<rfloor>" by (simp add: is_whole_def)
  show ?thesis
  proof (cases "direction h = ''Buy''")
    case True
    then have "signed_open h = Fin (real_of_int \<lfloor>q\<rfloor>)"
      using q(1) int by (simp add: signed_open_def)
    then show ?thesis by blast
  next
    case False
    show ?thesis
    proof (cases "q = 0")
      case True
      then show ?thesis using q(1) False by (simp add: signed_open_def)
    next
      case nz: False
      then have "signed_open h = Fin (real_of_int (- \<lfloor>q\<rfloor>))"
        using q(1) int False by (simp add: signed_open_def)
      then show ?thesis by blast
    qed
  qed
qed

lemma exact_sum:
  assumes "list_all whole_open hs"
    and "\<bar>real_of_int m\<bar> + (\<Sum>h\<leftarrow>hs. \<bar>real_of_number (signed_open h)\<bar>) \<le> 2 ^ 53"
  shows "foldl num_add (Fin (real_of_int m)) (map signed_open hs)
       = Fin (real_of_int m + exact_net hs)"
  using assms
proof (induction hs arbitrary: m)
  case Nil
  then show ?case by (simp add: exact_net_def)
next
  case (Cons h hs)
  have nn: "0 \<le> (\<Sum>h\<leftarrow>hs. \<bar>real_of_number (signed_open h)\<bar>)"
    by (rule sum_list_nonneg) auto
  from Cons.prems(1) whole_open_Fin [of h]
  have "signed_open h = NegZero \<or> (\<exists>n. signed_open h = Fin (real_of_int n))" by simp
  then show ?case
  proof
    assume z: "signed_open h = NegZero"
    have "\<bar>real_of_int m\<bar> + (\<Sum>h\<leftarrow>hs. \<bar>real_of_number (signed_open h)\<bar>) \<le> 2 ^ 53"
      using Cons.prems(2) z by (simp add: real_of_number_def)
    from Cons.IH [OF _ this] Cons.prems(1)
    have "foldl num_add (Fin (real_of_int m)) (map signed_open hs)
        = Fin (real_of_int m + exact_net hs)" by simp
    then show ?thesis using z by (simp add: exact_net_def real_of_number_def)
  next
    assume "\<exists>n. signed_open h = Fin (real_of_int n)"
    then obtain n where n: "signed_open h = Fin (real_of_int n)" by blast
    have bound: "\<bar>real_of_int m\<bar> + \<bar>real_of_int n\<bar>
        + (\<Sum>h\<leftarrow>hs. \<bar>real_of_number (signed_open h)\<bar>) \<le> 2 ^ 53"
      using Cons.prems(2) n by (simp add: real_of_number_def)
    have "\<bar>real_of_int (m + n)\<bar> \<le> 2 ^ 53" using bound nn by simp
    then have "\<bar>m + n\<bar> \<le> 2 ^ 53"
      by (simp only: of_int_abs [symmetric] of_int_le_numeral_power_cancel_iff)
    then have "round_double (real_of_int (m + n)) = Fin (real_of_int (m + n))"
      by (rule round_double_int)
    then have step: "num_add (Fin (real_of_int m)) (Fin (real_of_int n))
        = Fin (real_of_int (m + n))"
      by simp
    have "\<bar>real_of_int (m + n)\<bar> + (\<Sum>h\<leftarrow>hs. \<bar>real_of_number (signed_open h)\<bar>) \<le> 2 ^ 53"
      using bound by simp
    from Cons.IH [OF _ this] Cons.prems(1)
    have "foldl num_add (Fin (real_of_int (m + n))) (map signed_open hs)
        = Fin (real_of_int (m + n) + exact_net hs)" by simp
    then show ?thesis using n step by (simp add: exact_net_def real_of_number_def)
  qed
qed

text \<open>
  C9 (amended). Let \<open>net\<close> be the sum, taken from left to right with each addition
  rounded to a double, of one term for each linked execution: its open quantity, or its
  trade quantity where no open quantity is stored, with a minus sign unless the
  direction is Buy. The result is labelled Flat exactly when \<open>|net|\<close> is below the
  double 0.01 (its value is then 0), Long with value and magnitude \<open>net\<close> when
  \<open>net\<close> is at least the double 0.01, and Short with value \<open>net\<close> and magnitude
  \<open>|net|\<close> when \<open>net\<close> is at most minus the double 0.01. When every execution has an
  open quantity stored, the result does not depend on the trade quantities. When the
  quantities are whole numbers whose total is at most \<open>2 ^ 53\<close>, \<open>net\<close> is the exact
  sum of the terms.
\<close>

theorem netExposure_net_position:
  fixes hs :: "hedge_execution list"
  defines "net \<equiv> foldl num_add (Fin 0) (map signed_open hs)"
  shows "netExposure (Some hs)
           = (if num_lt (num_abs net) (lit 0.01) then (Fin 0, Flat)
              else if num_lt (Fin 0) net then (net, Long net)
              else (net, Short (num_abs net)))
     \<and> (snd (netExposure (Some hs)) = Flat \<longleftrightarrow> num_lt (num_abs net) (lit 0.01))
     \<and> (num_le (lit 0.01) net \<longrightarrow> netExposure (Some hs) = (net, Long net))
     \<and> (num_le net (num_neg (lit 0.01)) \<longrightarrow> netExposure (Some hs) = (net, Short (num_abs net)))
     \<and> (list_all (\<lambda>h. open_quantity_mt h \<noteq> None) hs \<longrightarrow>
          (\<forall>q. netExposure (Some (map (\<lambda>h. h\<lparr>quantity_mt := q h\<rparr>) hs))
               = netExposure (Some hs)))
     \<and> (list_all whole_open hs
          \<and> (\<Sum>h\<leftarrow>hs. \<bar>real_of_number (signed_open h)\<bar>) \<le> 2 ^ 53 \<longrightarrow>
          net = Fin (exact_net hs))"
proof -
  have run: "netExposure (Some hs)
           = (if num_lt (num_abs net) (lit 0.01) then (Fin 0, Flat)
              else if num_lt (Fin 0) net then (net, Long net)
              else (net, Short (num_abs net)))"
    by (cases "hs = []") (simp_all add: netExposure_def net_as_sum net_def Let_def lit_cent)
  have flat: "snd (netExposure (Some hs)) = Flat \<longleftrightarrow> num_lt (num_abs net) (lit 0.01)"
    by (simp add: run)
  have long: "netExposure (Some hs) = (net, Long net)" if "num_le (lit 0.01) net"
    using that by (cases net) (simp_all add: run lit_cent)
  have short: "netExposure (Some hs) = (net, Short (num_abs net))"
    if "num_le net (num_neg (lit 0.01))"
    using that by (cases net) (simp_all add: run lit_cent)
  have ign: "netExposure (Some (map (\<lambda>h. h\<lparr>quantity_mt := q h\<rparr>) hs)) = netExposure (Some hs)"
    if "list_all (\<lambda>h. open_quantity_mt h \<noteq> None) hs" for q
    by (simp add: netExposure_def net_as_sum map_signed_open_ignores_quantity [OF that]
          del: map_map)
  have whole: "net = Fin (exact_net hs)"
    if "list_all whole_open hs" "(\<Sum>h\<leftarrow>hs. \<bar>real_of_number (signed_open h)\<bar>) \<le> 2 ^ 53"
    using exact_sum [of hs 0] that by (simp add: net_def)
  from run flat long short ign whole show ?thesis by blast
qed

theorem netExposure_net_position_witness:
  "netExposure (Some [hedge_b, hedge_c]) = (Fin 15, Long (Fin 15))
   \<and> netExposure (Some [hedge_c]) = (Fin (- 25), Short (Fin 25))
   \<and> netExposure (Some [opened ''x1'' ''Buy'' 0.03, opened ''x2'' ''Sell'' 0.02]) = (Fin 0, Flat)
   \<and> netExposure (Some [hedge_b \<lparr> quantity_mt := Fin 70 \<rparr>, hedge_c]) = (Fin 15, Long (Fin 15))"
proof -
  have s: "map signed_open [hedge_b, hedge_c] = [Fin 40, Fin (- 25)]"
    "map signed_open [hedge_c] = [Fin (- 25)]"
    "map signed_open [opened ''x1'' ''Buy'' 0.03, opened ''x2'' ''Sell'' 0.02]
       = [lit 0.03, num_neg (lit 0.02)]"
    by (simp_all add: signed_open_def Let_def hedge_a_def hedge_b_def hedge_c_def opened_def)
  have v: "num_add (Fin 40) (Fin (- 25)) = Fin 15"
    by (simp add: rd)
  have f: "num_add (num_add (Fin 0) (lit 0.03)) (num_neg (lit 0.02))
      = Fin (2882303761517117 / 288230376151711744)"
    by (simp add: rd)
  have o: "list_all (\<lambda>h. open_quantity_mt h \<noteq> None) [hedge_b, hedge_c]"
    by (simp add: hedge_b_def hedge_c_def)
  show ?thesis
    using netExposure_net_position [of "[hedge_b, hedge_c]", THEN conjunct1]
      netExposure_net_position [of "[hedge_c]", THEN conjunct1]
      netExposure_net_position
        [of "[opened ''x1'' ''Buy'' 0.03, opened ''x2'' ''Sell'' 0.02]", THEN conjunct1]
      netExposure_net_position [of "[hedge_b, hedge_c]", THEN conjunct2, THEN conjunct2,
        THEN conjunct2, THEN conjunct2, THEN conjunct1, THEN mp, OF o, THEN spec,
        of "\<lambda>h. if hedge_id h = ''h2'' then Fin 70 else quantity_mt h"]
      s v f lit_cent
    by (simp add: hedge_b_def hedge_c_def)
qed

text \<open>
  The claim as stated fails on an execution with no open quantity stored: its trade
  quantity is counted, so that the execution of 40 MT is reported as a long position
  of 40 MT and, with its trade quantity changed to 50 MT, of 50 MT. It fails also where
  the additions round: for open quantities of 163.26 and 133.46 MT bought and 296.73 MT
  sold (the doubles next to these decimals) the exact net position is below -0.01, and
  the result is Flat.
\<close>

theorem trade_quantity_counterexample:
  "open_quantity_mt hedge_a = None \<and> quantity_mt hedge_a = Fin 40
   \<and> netExposure (Some [hedge_a]) = (Fin 40, Long (Fin 40))
   \<and> netExposure (Some [hedge_a \<lparr> quantity_mt := Fin 50 \<rparr>]) = (Fin 50, Long (Fin 50))
   \<and> exact_net [opened ''x1'' ''Buy'' 163.26, opened ''x2'' ''Buy'' 133.46,
                 opened ''x3'' ''Sell'' 296.73] < - 0.01
   \<and> netExposure (Some [opened ''x1'' ''Buy'' 163.26, opened ''x2'' ''Buy'' 133.46,
                         opened ''x3'' ''Sell'' 296.73]) = (Fin 0, Flat)"
  by (simp add: netExposure_def openQty_def exact_net_def real_of_number_def signed_open_def
        hedge_a_def opened_def rd)


end
